theory Spec2Isabelle
  imports Main
begin

section \<open>Python values, errors and the trace of external calls\<close>

text \<open>
  The two modules \<^verbatim>\<open>plugins/modules/floating_ip.py\<close> and
  \<^verbatim>\<open>plugins/modules/image_import.py\<close> are embedded as functions over an explicit
  trace of the calls they make to their collaborators (the OpenStack cloud object, the
  Ansible module object, the operating system and the URL opener). A parameter that may
  be \<^verbatim>\<open>None\<close> is a \<open>string option\<close>; Python's truth test on it (\<^verbatim>\<open>if x\<close>,
  \<^verbatim>\<open>if not x\<close>) is \<open>truthy\<close>: false on \<^verbatim>\<open>None\<close> and on the empty string.
  The functions embedded are \<open>get_project\<close>, \<open>get_network\<close>, \<open>allocate\<close>,
  \<open>release\<close> and \<open>core\<close> of the first module and \<open>import_from_disk\<close>,
  \<^verbatim>\<open>import_\<close>, \<open>delete\<close> and \<open>core\<close> of the second, under Python 3. \<open>main\<close>,
  which parses the arguments and turns an exception into a failure report, and the
  construction of the cloud object are outside.
\<close>

definition truthy :: "string option \<Rightarrow> bool" where
  "truthy x = (case x of None \<Rightarrow> False | Some s \<Rightarrow> s \<noteq> [])"

text \<open>\<^verbatim>\<open>'%s' % x\<close> for a string or \<^verbatim>\<open>None\<close>.\<close>

definition str_of :: "string option \<Rightarrow> string" where
  "str_of x = (case x of None \<Rightarrow> ''None'' | Some s \<Rightarrow> s)"

text \<open>The values stored in the result dictionaries and in keyword arguments.\<close>

datatype pyval = PNone | PStr string | PBool bool | PInt int

definition opt_str :: "string option \<Rightarrow> pyval" where
  "opt_str x = (case x of None \<Rightarrow> PNone | Some s \<Rightarrow> PStr s)"

definition opt_int :: "int option \<Rightarrow> pyval" where
  "opt_int x = (case x of None \<Rightarrow> PNone | Some n \<Rightarrow> PInt n)"

type_synonym pydict = "(string \<times> pyval) list"

datatype state = Present | Absent

definition state_str :: "state \<Rightarrow> string" where
  "state_str s = (case s of Present \<Rightarrow> ''present'' | Absent \<Rightarrow> ''absent'')"

text \<open>
  Every way an invocation can end other than by returning: the exceptions the modules
  raise themselves (\<open>ValueError\<close> and \<open>Exception\<close> with their messages, the
  \<^verbatim>\<open>assert\<close> of \<open>release\<close>, the \<open>TypeError\<close> of a path function applied to
  \<^verbatim>\<open>None\<close>), the exit through \<^verbatim>\<open>module.fail_json\<close>, and an exception raised
  inside a collaborator, which the modules never catch.
\<close>

datatype error =
    ValueError string
  | Exception string
  | AssertionError
  | TypeError
  | FailJson string
  | CollaboratorError string

record project =
  project_id :: "string option"
  project_name :: "string option"

record network =
  network_id :: string
  network_name :: string

record floating_ip =
  floating_ip_address :: string

record image =
  image_id :: string
  image_name :: "string option"
  image_size :: "int option"
  image_disk_format :: "string option"

record response =
  content_disposition :: "string option"

record create_image_args =
  ci_name :: "string option"
  ci_filename :: "string option"
  ci_disk_format :: "string option"
  ci_wait :: bool
  ci_timeout :: int
  ci_kwargs :: pydict

text \<open>One constructor per external call of the two modules, with the arguments passed.\<close>

datatype call =
    GetProject "string option"
  | SearchNetworks string "(string \<times> string option) list option"
  | SearchFloatingIps "(string \<times> string option) list"
  | CreateIp "string option" string "string option" int bool
  | DeleteIp floating_ip bool
  | TemporaryDirectory
  | Cleanup string
  | OpenUrl "string option"
  | CopyFileObj string
  | PathExists string
  | DigestFromFile string "string option"
  | GetSize string
  | GetImage "string option"
  | CreateImage create_image_args
  | DeleteImage "string option" bool int
  | Log string

text \<open>
  The cloud object. What a call answers may depend on everything that happened before
  (the cloud is shared and changes under the module), so every answer is a function of
  the calls made so far; \<open>Inl msg\<close> is the call raising an exception.
  \<^verbatim>\<open>cloud.current_project\<close> is an attribute holding a project record, which passes
  the truth test of \<open>get_project\<close>.
\<close>

record cloud =
  cloud_current_project :: project
  cloud_get_project :: "call list \<Rightarrow> string option \<Rightarrow> string + project option"
  cloud_search_networks ::
    "call list \<Rightarrow> string \<Rightarrow> (string \<times> string option) list option \<Rightarrow> string + network list"
  cloud_search_floating_ips ::
    "call list \<Rightarrow> (string \<times> string option) list \<Rightarrow> string + floating_ip list"
  cloud_create_ip ::
    "call list \<Rightarrow> string option \<Rightarrow> string \<Rightarrow> string option \<Rightarrow> int \<Rightarrow> bool \<Rightarrow> string + floating_ip"
  cloud_delete_ip :: "call list \<Rightarrow> floating_ip \<Rightarrow> bool \<Rightarrow> string + unit"
  cloud_get_image :: "call list \<Rightarrow> string option \<Rightarrow> string + image option"
  cloud_create_image :: "call list \<Rightarrow> create_image_args \<Rightarrow> string + image"
  cloud_delete_image :: "call list \<Rightarrow> string option \<Rightarrow> bool \<Rightarrow> int \<Rightarrow> string + unit"

text \<open>
  An action takes the calls made so far and returns them extended, with either the error
  that ended it or its value.
\<close>

type_synonym 'a action = "call list \<Rightarrow> call list \<times> (error + 'a)"

definition succeed :: "'a \<Rightarrow> 'a action" where
  "succeed x tr = (tr, Inr x)"

definition raise :: "error \<Rightarrow> 'a action" where
  "raise e tr = (tr, Inl e)"

definition and_then :: "'a action \<Rightarrow> ('a \<Rightarrow> 'b action) \<Rightarrow> 'b action" where
  "and_then m f tr = (case m tr of (tr', Inl e) \<Rightarrow> (tr', Inl e) | (tr', Inr x) \<Rightarrow> f x tr')"

definition perform :: "call \<Rightarrow> (call list \<Rightarrow> string + 'a) \<Rightarrow> 'a action" where
  "perform c answer tr =
     (tr @ [c], case answer tr of Inl msg \<Rightarrow> Inl (CollaboratorError msg) | Inr v \<Rightarrow> Inr v)"

section \<open>floating\_ip.py\<close>

definition get_project :: "cloud \<Rightarrow> string option \<Rightarrow> project action" where
  "get_project cloud name_or_id =
     and_then
       (if \<not> truthy name_or_id
           \<or> name_or_id \<in> set [project_name (cloud_current_project cloud),
                                 project_id (cloud_current_project cloud)]
        then succeed (Some (cloud_current_project cloud))
        else perform (GetProject name_or_id) (\<lambda>tr. cloud_get_project cloud tr name_or_id))
       (\<lambda>project. case project of
            None \<Rightarrow> raise (ValueError (''Project '' @ str_of name_or_id @ '' does not exist''))
          | Some p \<Rightarrow> succeed p)"

definition get_network :: "cloud \<Rightarrow> string \<Rightarrow> string option \<Rightarrow> network action" where
  "get_network cloud name_or_id project_id' =
     (let filters = (if truthy project_id' then Some [(''tenant_id'', project_id')] else None) in
      and_then
        (perform (SearchNetworks name_or_id filters)
           (\<lambda>tr. cloud_search_networks cloud tr name_or_id filters))
        (\<lambda>networks.
           if networks = [] \<or> length networks > 1
           then raise (ValueError (''Network '' @ name_or_id @ '' is invalid or ambiguous''))
           else succeed (hd networks)))"

type_synonym fip_outcome =
  "bool \<times> string option \<times> string \<times> string \<times> string option \<times> string option"

definition allocate ::
  "cloud \<Rightarrow> string option \<Rightarrow> string \<Rightarrow> string option \<Rightarrow> state \<Rightarrow> int \<Rightarrow> bool \<Rightarrow> fip_outcome action"
where
  "allocate cloud floating_ip_address' floating_network_name project_name' state' timeout wait =
     and_then (get_project cloud project_name') (\<lambda>project.
     and_then (get_network cloud floating_network_name (project_id project)) (\<lambda>network.
       let fip_filters =
             [(''network'', Some (network_id network)), (''tenant_id'', project_id project)]
             @ (if truthy floating_ip_address'
                then [(''floating_ip_address'', floating_ip_address')] else [])
       in
       and_then
         (perform (SearchFloatingIps fip_filters)
            (\<lambda>tr. cloud_search_floating_ips cloud tr fip_filters))
         (\<lambda>fips.
            if fips \<noteq> []
            then succeed (False, Some (floating_ip_address (hd fips)), network_name network,
                          network_id network, project_name project, project_id project)
            else
              and_then
                (perform
                   (CreateIp floating_ip_address' (network_id network) (project_id project)
                      timeout wait)
                   (\<lambda>tr. cloud_create_ip cloud tr floating_ip_address' (network_id network)
                      (project_id project) timeout wait))
                (\<lambda>fip. succeed (True, Some (floating_ip_address fip), network_name network,
                                network_id network, project_name project, project_id project)))))"

text \<open>
  \<open>release\<close>, statement by statement. The \<^verbatim>\<open>assert len(fips) == 1\<close> is executed, as it
  is under the interpreter's default settings.
\<close>

definition release ::
  "cloud \<Rightarrow> string option \<Rightarrow> string \<Rightarrow> string option \<Rightarrow> state \<Rightarrow> int \<Rightarrow> bool \<Rightarrow> fip_outcome action"
where
  "release cloud floating_ip_address' floating_network_name project_name' state' timeout wait =
     and_then (get_project cloud project_name') (\<lambda>project.
     and_then (get_network cloud floating_network_name (project_id project)) (\<lambda>network.
       let fip_filters =
             [(''floating_ip_address'', floating_ip_address'),
              (''network'', Some (network_id network)),
              (''tenant_id'', project_id project)]
       in
       and_then
         (perform (SearchFloatingIps fip_filters)
            (\<lambda>tr. cloud_search_floating_ips cloud tr fip_filters))
         (\<lambda>fips.
            if fips = []
            then succeed (False, floating_ip_address', network_name network,
                          network_id network, project_name project, project_id project)
            else if length fips \<noteq> 1 then raise AssertionError
            else if length fips > 1
            then raise (ValueError (''Floating ip address '' @ str_of floating_ip_address'
                                     @ '' is ambiguous''))
            else
              (let fip = hd fips in
               and_then
                 (perform (DeleteIp fip False) (\<lambda>tr. cloud_delete_ip cloud tr fip False))
                 (\<lambda>_. succeed (True, Some (floating_ip_address fip), network_name network,
                               network_id network, project_name project, project_id project))))))"

text \<open>
  \<open>release\<close> with the second test (\<^verbatim>\<open>if len(fips) > 1: raise ValueError\<close>) deleted and
  nothing else changed: the single guard the design notes ask for.
\<close>

definition release_single_guard ::
  "cloud \<Rightarrow> string option \<Rightarrow> string \<Rightarrow> string option \<Rightarrow> state \<Rightarrow> int \<Rightarrow> bool \<Rightarrow> fip_outcome action"
where
  "release_single_guard cloud floating_ip_address' floating_network_name project_name' state'
       timeout wait =
     and_then (get_project cloud project_name') (\<lambda>project.
     and_then (get_network cloud floating_network_name (project_id project)) (\<lambda>network.
       let fip_filters =
             [(''floating_ip_address'', floating_ip_address'),
              (''network'', Some (network_id network)),
              (''tenant_id'', project_id project)]
       in
       and_then
         (perform (SearchFloatingIps fip_filters)
            (\<lambda>tr. cloud_search_floating_ips cloud tr fip_filters))
         (\<lambda>fips.
            if fips = []
            then succeed (False, floating_ip_address', network_name network,
                          network_id network, project_name project, project_id project)
            else if length fips \<noteq> 1 then raise AssertionError
            else
              (let fip = hd fips in
               and_then
                 (perform (DeleteIp fip False) (\<lambda>tr. cloud_delete_ip cloud tr fip False))
                 (\<lambda>_. succeed (True, Some (floating_ip_address fip), network_name network,
                               network_id network, project_name project, project_id project))))))"

text \<open>The Ansible module object of \<^verbatim>\<open>floating_ip.py\<close>: its parameters and the check-mode flag.\<close>

record fip_module =
  fip_floating_ip_address :: "string option"
  fip_floating_network_name :: string
  fip_project_name :: "string option"
  fip_state :: state
  fip_timeout :: int
  fip_wait :: bool
  fip_check_mode :: bool

definition fip_core :: "cloud \<Rightarrow> fip_module \<Rightarrow> pydict action" where
  "fip_core cloud module =
     (let floating_ip_address' = fip_floating_ip_address module;
          floating_network_name = fip_floating_network_name module;
          project_name' = fip_project_name module;
          state' = fip_state module;
          timeout = fip_timeout module;
          wait = fip_wait module
      in
      if fip_check_mode module
      then succeed
             [(''changed'', PBool False),
              (''floating_ip_address'', opt_str floating_ip_address'),
              (''floating_network_name'', PStr floating_network_name),
              (''project_name'', opt_str project_name'),
              (''state'', PStr (state_str state')),
              (''timeout'', PInt timeout),
              (''wait'', PBool wait)]
      else
        and_then
          (case state' of
             Present \<Rightarrow> allocate cloud floating_ip_address' floating_network_name project_name'
                          state' timeout wait
           | Absent \<Rightarrow> release cloud floating_ip_address' floating_network_name project_name'
                         state' timeout wait)
          (\<lambda>(changed, floating_ip_address', floating_network_name, floating_network_id,
              project_name', project_id').
             succeed
               [(''changed'', PBool changed),
                (''floating_ip_address'', opt_str floating_ip_address'),
                (''floating_network_name'', PStr floating_network_name),
                (''floating_network_id'', PStr floating_network_id),
                (''project_name'', opt_str project_name'),
                (''project_id'', opt_str project_id'),
                (''state'', PStr (state_str state')),
                (''timeout'', PInt timeout),
                (''wait'', PBool wait)]))"

section \<open>Library functions used by image\_import.py\<close>

text \<open>
  \<^verbatim>\<open>os.path.basename\<close>, \<^verbatim>\<open>os.path.splitext\<close> and \<^verbatim>\<open>os.path.join\<close> are the
  POSIX ones of the Python standard library. \<open>basename\<close> is what follows the last
  \<^verbatim>\<open>/\<close>. \<open>splitext\<close> cuts at the last \<^verbatim>\<open>.\<close> of the base name, unless nothing
  but dots stands before it there; the extension keeps its dot.
\<close>

definition basename :: "string \<Rightarrow> string" where
  "basename p = rev (takeWhile (\<lambda>c. c \<noteq> CHR ''/'') (rev p))"

definition splitext :: "string \<Rightarrow> string \<times> string" where
  "splitext p =
     (let b = basename p;
          ext = rev (takeWhile (\<lambda>c. c \<noteq> CHR ''.'') (rev b));
          stem = take (length b - length ext - 1) b
      in if CHR ''.'' \<in> set b \<and> filter (\<lambda>c. c \<noteq> CHR ''.'') stem \<noteq> []
         then (take (length p - length ext - 1) p, CHR ''.'' # ext)
         else (p, []))"

definition path_join :: "string \<Rightarrow> string \<Rightarrow> string" where
  "path_join a b =
     (if b \<noteq> [] \<and> hd b = CHR ''/'' then b
      else if a = [] \<or> last a = CHR ''/'' then a @ b
      else a @ ''/'' @ b)"

text \<open>
  \<^verbatim>\<open>re.findall("filename=(.+)", cd)[0]\<close> inside its \<^verbatim>\<open>try\<close>: the rest of the line
  after the first \<^verbatim>\<open>filename=\<close> that is followed by a character other than a newline;
  \<open>None\<close> where the \<^verbatim>\<open>IndexError\<close> is caught.
\<close>

fun header_filename :: "string \<Rightarrow> string option" where
  "header_filename [] = None"
| "header_filename (c # cs) =
     (let rest = drop 9 (c # cs) in
      if take 9 (c # cs) = ''filename='' \<and> rest \<noteq> [] \<and> hd rest \<noteq> CHR 0x0A
      then Some (takeWhile (\<lambda>d. d \<noteq> CHR 0x0A) rest)
      else header_filename cs)"

text \<open>\<^verbatim>\<open>checksum.split(':', 1)\<close>: one element without a colon, otherwise two.\<close>

definition split_colon :: "string \<Rightarrow> string list" where
  "split_colon s =
     (if CHR '':'' \<in> set s
      then [takeWhile (\<lambda>c. c \<noteq> CHR '':'') s, tl (dropWhile (\<lambda>c. c \<noteq> CHR '':'') s)]
      else [s])"

text \<open>
  What the module reaches outside the cloud. \<^verbatim>\<open>urlsplit\<close> belongs to the standard
  library and is a parameter here: it gives the scheme and the path of a locator, or raises.
  The other fields answer the calls that touch the file system or the network, given the
  calls made so far: \<^verbatim>\<open>tempfile.TemporaryDirectory()\<close>, \<^verbatim>\<open>open_url\<close>, writing the
  response to a file, \<^verbatim>\<open>os.path.exists\<close>, \<^verbatim>\<open>module.digest_from_file\<close> and
  \<^verbatim>\<open>os.path.getsize\<close>.
\<close>

record host =
  host_urlsplit :: "string option \<Rightarrow> error + (string \<times> string)"
  host_mkdtemp :: "call list \<Rightarrow> string + string"
  host_open_url :: "call list \<Rightarrow> string option \<Rightarrow> string + response"
  host_copyfileobj :: "call list \<Rightarrow> string \<Rightarrow> string + unit"
  host_path_exists :: "call list \<Rightarrow> string \<Rightarrow> bool"
  host_digest_from_file :: "call list \<Rightarrow> string \<Rightarrow> string option \<Rightarrow> string + string option"
  host_getsize :: "call list \<Rightarrow> string \<Rightarrow> string + int"

text \<open>
  \<^verbatim>\<open>with tempfile.TemporaryDirectory() as dir:\<close> removes the directory however the
  block is left.
\<close>

definition with_temporary_directory :: "host \<Rightarrow> (string \<Rightarrow> 'a action) \<Rightarrow> 'a action" where
  "with_temporary_directory host body =
     and_then (perform TemporaryDirectory (host_mkdtemp host))
       (\<lambda>dir tr. case body dir tr of (tr', r) \<Rightarrow> (tr' @ [Cleanup dir], r))"

section \<open>image\_import.py\<close>

text \<open>
  \<open>import_from_disk\<close>. \<^verbatim>\<open>os.path.exists(None)\<close> raises \<open>TypeError\<close>. The log line
  about a differing size is recorded without the two sizes it prints.
\<close>

definition import_from_disk ::
  "cloud \<Rightarrow> host \<Rightarrow> string option \<Rightarrow> string option \<Rightarrow> string option \<Rightarrow> string option
     \<Rightarrow> string option \<Rightarrow> state \<Rightarrow> int \<Rightarrow> string option \<Rightarrow> bool
     \<Rightarrow> (string \<times> int option) action"
where
  "import_from_disk cloud host algorithm checksum format id' name state' timeout path wait =
     (case path of
        None \<Rightarrow> raise TypeError
      | Some p \<Rightarrow>
     and_then (perform (PathExists p) (\<lambda>tr. Inr (host_path_exists host tr p))) (\<lambda>exists.
     if \<not> exists then raise (Exception (''Image path '' @ p @ '' does not exist''))
     else
     and_then
       (if truthy checksum
        then and_then
               (perform (DigestFromFile p algorithm)
                  (\<lambda>tr. host_digest_from_file host tr p algorithm))
               (\<lambda>checksum_on_disk.
                  if checksum \<noteq> checksum_on_disk
                  then raise (Exception (''Checksum mismatch '' @ str_of checksum @ '' != ''
                                          @ str_of checksum_on_disk))
                  else succeed ())
        else succeed ())
       (\<lambda>_.
     let name_or_id = (if truthy id' then id' else name) in
     and_then (perform (GetImage name_or_id) (\<lambda>tr. cloud_get_image cloud tr name_or_id))
       (\<lambda>image.
     case image of
       Some _ \<Rightarrow> raise (Exception (''image '' @ str_of name_or_id @ '' exists already''))
     | None \<Rightarrow>
     and_then (perform (GetSize p) (\<lambda>tr. host_getsize host tr p)) (\<lambda>size_on_disk.
     let kwargs = (if truthy id' then [(''id'', opt_str id')] else [])
                  @ (if algorithm \<in> set [Some ''md5'', Some ''sha256'']
                     then [(''validate_checksum'', PBool True),
                           (str_of algorithm, opt_str checksum)]
                     else []);
         args = \<lparr>ci_name = name, ci_filename = path, ci_disk_format = format,
                 ci_wait = wait, ci_timeout = timeout, ci_kwargs = kwargs\<rparr>
     in
     and_then (perform (CreateImage args) (\<lambda>tr. cloud_create_image cloud tr args)) (\<lambda>image.
     and_then
       (if image_size image \<noteq> Some size_on_disk
        then perform (Log ''[DEBUG] image size on disk differs from the uploaded size'')
               (\<lambda>tr. Inr ())
        else succeed ())
       (\<lambda>_. succeed (image_id image, image_size image))))))))"

text \<open>
  The source's \<^verbatim>\<open>import_\<close> is \<open>import'\<close> below. The statements that both of its
  branches run when no format is given:
  \<^verbatim>\<open>format = os.path.splitext(name)[-1]\<close>, then the leading dot is removed when more
  than the dot is there. \<^verbatim>\<open>os.path.splitext(None)\<close> raises \<open>TypeError\<close> (Python 3).
\<close>

definition derive_format :: "string option \<Rightarrow> string option \<Rightarrow> string option action" where
  "derive_format format name =
     (if \<not> truthy format
      then (case name of
              None \<Rightarrow> raise TypeError
            | Some n \<Rightarrow>
                (let format = snd (splitext n) in
                 succeed (Some (if format \<noteq> [] \<and> length format > 1 then tl format else format))))
      else succeed format)"

text \<open>
  The names the remote branch of \<open>import'\<close> settles on once the URL is open (from
  \<^verbatim>\<open>filename = None\<close> to \<^verbatim>\<open>name = filename\<close>): the file name is the one in the
  \<^verbatim>\<open>Content-Disposition\<close> header, else the base name of the URL's path, else the given
  name; the image name is the given name, else the file name.
\<close>

definition remote_names ::
  "response \<Rightarrow> string \<Rightarrow> string option \<Rightarrow> string option \<times> string option"
where
  "remote_names r uri_path name =
     (let cd = content_disposition r;
          filename = (case cd of
                        None \<Rightarrow> None
                      | Some h \<Rightarrow> if h \<noteq> [] then header_filename h else None);
          filename = (if \<not> truthy filename then Some (basename uri_path) else filename);
          filename = (if \<not> truthy filename then name else filename);
          name = (if \<not> truthy name then filename else name)
      in (filename, name))"

text \<open>
  The start of the local branch of \<open>import'\<close> (from \<^verbatim>\<open>name_or_id = id if id else name\<close>
  to \<^verbatim>\<open>name_or_id = name\<close>): the name and the lookup key. Without id and name, the name
  is the base name of the locator; \<^verbatim>\<open>os.path.basename(None)\<close> raises \<open>TypeError\<close>.
\<close>

definition local_names ::
  "string option \<Rightarrow> string option \<Rightarrow> string option \<Rightarrow> (string option \<times> string option) action"
where
  "local_names id' name uri =
     (let name_or_id = (if truthy id' then id' else name) in
      if \<not> truthy name_or_id
      then (case uri of
              None \<Rightarrow> raise TypeError
            | Some u \<Rightarrow>
                if basename u = []
                then raise (ValueError
                       ''no image name given and image name could not be derived from uri'')
                else succeed (Some (basename u), Some (basename u)))
      else succeed (name, name_or_id))"

type_synonym image_outcome =
  "bool \<times> string option \<times> string option \<times> int option \<times> string option"

definition import' ::
  "cloud \<Rightarrow> host \<Rightarrow> string option \<Rightarrow> string option \<Rightarrow> string option \<Rightarrow> string option
     \<Rightarrow> string option \<Rightarrow> state \<Rightarrow> int \<Rightarrow> string option \<Rightarrow> bool \<Rightarrow> image_outcome action"
where
  "import' cloud host algorithm checksum format id' name state' timeout uri wait =
     (case host_urlsplit host uri of
        Inl e \<Rightarrow> raise e
      | Inr (uri_scheme, uri_path) \<Rightarrow>
     if uri_scheme \<noteq> ''file'' \<and> length uri_scheme > 0
     then
       with_temporary_directory host (\<lambda>dir.
         and_then
           (and_then (perform (OpenUrl uri) (\<lambda>tr. host_open_url host tr uri)) (\<lambda>r.
              case remote_names r uri_path name of (filename, name) \<Rightarrow>
              case filename of
                None \<Rightarrow> raise (ValueError ''no name given and name could not be derived from uri'')
              | Some fname \<Rightarrow>
              if fname = []
              then raise (ValueError ''no name given and name could not be derived from uri'')
              else
              and_then (derive_format format name) (\<lambda>format.
              if \<not> truthy format
              then raise (ValueError ''no format given and format could not be derived from uri'')
              else
              let name_or_id = (if truthy id' then id' else name) in
              and_then (perform (GetImage name_or_id) (\<lambda>tr. cloud_get_image cloud tr name_or_id))
                (\<lambda>image.
              case image of
                Some im \<Rightarrow>
                  succeed (Inl (False, Some (image_id im), image_name im, image_size im,
                                image_disk_format im))
              | None \<Rightarrow>
                  (let local_image_path = path_join dir fname in
                   and_then
                     (perform (CopyFileObj local_image_path)
                        (\<lambda>tr. host_copyfileobj host tr local_image_path))
                     (\<lambda>_. succeed (Inr (format, name, local_image_path))))))))
           (\<lambda>x. case x of
                  Inl outcome \<Rightarrow> succeed outcome
                | Inr (format, name, local_image_path) \<Rightarrow>
                    and_then
                      (import_from_disk cloud host algorithm checksum format id' name state'
                         timeout (Some local_image_path) wait)
                      (\<lambda>(id', size). succeed (True, Some id', name, size, format))))
     else
       and_then (local_names id' name uri) (\<lambda>(name, name_or_id).
       and_then (perform (GetImage name_or_id) (\<lambda>tr. cloud_get_image cloud tr name_or_id))
         (\<lambda>image.
       case image of
         Some im \<Rightarrow>
           succeed (False, Some (image_id im), image_name im, image_size im, image_disk_format im)
       | None \<Rightarrow>
       and_then (derive_format format name) (\<lambda>format.
       if \<not> truthy format
       then raise (ValueError
              ''no image format given and format could not be derived from uri'')
       else
       and_then
         (import_from_disk cloud host algorithm checksum format id' name state' timeout uri wait)
         (\<lambda>(id', size). succeed (True, Some id', name, size, format))))))"

definition delete ::
  "cloud \<Rightarrow> host \<Rightarrow> string option \<Rightarrow> string option \<Rightarrow> string option \<Rightarrow> string option
     \<Rightarrow> string option \<Rightarrow> state \<Rightarrow> int \<Rightarrow> string option \<Rightarrow> bool \<Rightarrow> image_outcome action"
where
  "delete cloud host algorithm checksum format id' name state' timeout uri wait =
     and_then
       (let name_or_id = (if truthy id' then id' else name) in
        if \<not> truthy name_or_id
        then (case host_urlsplit host uri of
                Inl e \<Rightarrow> raise e
              | Inr (uri_scheme, uri_path) \<Rightarrow>
                  if uri_scheme \<noteq> ''file'' \<and> length uri_scheme > 0
                  then raise (ValueError
                         ''name is required for deleting images if uri is given as an url'')
                  else (case uri of
                          None \<Rightarrow> raise TypeError
                        | Some u \<Rightarrow>
                            if basename u = []
                            then raise (ValueError ''name is required for deleting images'')
                            else succeed (Some (basename u), Some (basename u))))
        else succeed (name, name_or_id))
       (\<lambda>(name, name_or_id).
     and_then (perform (GetImage name_or_id) (\<lambda>tr. cloud_get_image cloud tr name_or_id))
       (\<lambda>image.
     case image of
       None \<Rightarrow> succeed (False, id', name, None, None)
     | Some im \<Rightarrow>
         and_then
           (perform (DeleteImage name_or_id wait timeout)
              (\<lambda>tr. cloud_delete_image cloud tr name_or_id wait timeout))
           (\<lambda>_. succeed (True, Some (image_id im), image_name im, image_size im,
                         image_disk_format im))))"

text \<open>The Ansible module object of \<^verbatim>\<open>image_import.py\<close>.\<close>

record image_module =
  img_checksum :: "string option"
  img_format :: "string option"
  img_id :: "string option"
  img_name :: "string option"
  img_state :: state
  img_timeout :: int
  img_uri :: "string option"
  img_wait :: bool
  img_check_mode :: bool

text \<open>\<^verbatim>\<open>"%s:%s" % (algorithm, checksum) if checksum is not None else None\<close>\<close>

definition checksum_echo :: "string option \<Rightarrow> string option \<Rightarrow> pyval" where
  "checksum_echo algorithm checksum =
     (case checksum of
        None \<Rightarrow> PNone
      | Some c \<Rightarrow> PStr (str_of algorithm @ '':'' @ c))"

definition image_core :: "cloud \<Rightarrow> host \<Rightarrow> image_module \<Rightarrow> pydict action" where
  "image_core cloud host module =
     (let format = img_format module;
          id' = img_id module;
          name = img_name module;
          state' = img_state module;
          timeout = img_timeout module;
          uri = img_uri module;
          wait = img_wait module
      in
      and_then
        (case img_checksum module of
           None \<Rightarrow> succeed (None, None)
         | Some c \<Rightarrow>
             if c \<noteq> []
             then (case split_colon c of
                     [algorithm, checksum] \<Rightarrow> succeed (Some algorithm, Some checksum)
                   | _ \<Rightarrow> raise (FailJson
                       ''The checksum parameter has to be in format <algorithm>:<checksum>''))
             else succeed (None, None))
        (\<lambda>(algorithm, checksum).
      if img_check_mode module
      then succeed
             [(''changed'', PBool False),
              (''checksum'', checksum_echo algorithm checksum),
              (''format'', opt_str format),
              (''id'', opt_str id'),
              (''name'', opt_str name),
              (''state'', PStr (state_str state')),
              (''timeout'', PInt timeout),
              (''uri'', opt_str uri),
              (''wait'', PBool wait)]
      else
        and_then
          (case state' of
             Present \<Rightarrow> import' cloud host algorithm checksum format id' name state' timeout uri wait
           | Absent \<Rightarrow> delete cloud host algorithm checksum format id' name state' timeout uri wait)
          (\<lambda>(changed, id', name, size, format).
             succeed
               [(''changed'', PBool changed),
                (''size'', opt_int size),
                (''checksum'', checksum_echo algorithm checksum),
                (''format'', opt_str format),
                (''id'', opt_str id'),
                (''name'', opt_str name),
                (''state'', PStr (state_str state')),
                (''timeout'', PInt timeout),
                (''uri'', opt_str uri),
                (''wait'', PBool wait)])))"

section \<open>A small cloud and host to run the modules on\<close>

text \<open>
  A cloud whose current project is \<^verbatim>\<open>devstack\<close> and which knows no other project; it
  answers every network search, floating IP search and image lookup with the given values,
  hands out \<^verbatim>\<open>203.0.113.9\<close> when no address is asked for, and accepts every mutation.
\<close>

definition demo_project :: project where
  "demo_project = \<lparr>project_id = Some ''0ebadc92'', project_name = Some ''devstack''\<rparr>"

definition demo_cloud :: "network list \<Rightarrow> floating_ip list \<Rightarrow> image option \<Rightarrow> cloud" where
  "demo_cloud networks fips img =
     \<lparr>cloud_current_project = demo_project,
      cloud_get_project = (\<lambda>tr name_or_id. Inr None),
      cloud_search_networks = (\<lambda>tr name_or_id filters. Inr networks),
      cloud_search_floating_ips = (\<lambda>tr filters. Inr fips),
      cloud_create_ip = (\<lambda>tr address network_id' tenant_id timeout wait.
         Inr \<lparr>floating_ip_address = (case address of None \<Rightarrow> ''203.0.113.9'' | Some a \<Rightarrow> a)\<rparr>),
      cloud_delete_ip = (\<lambda>tr fip ignore_missing. Inr ()),
      cloud_get_image = (\<lambda>tr name_or_id. Inr img),
      cloud_create_image = (\<lambda>tr args.
         Inr \<lparr>image_id = ''1961709b'', image_name = ci_name args, image_size = Some 536392192,
              image_disk_format = ci_disk_format args\<rparr>),
      cloud_delete_image = (\<lambda>tr name_or_id wait timeout. Inr ())\<rparr>"

definition ext_net :: network where
  "ext_net = \<lparr>network_id = ''1cface92'', network_name = ''ext_net''\<rparr>"

definition other_net :: network where
  "other_net = \<lparr>network_id = ''77aa0001'', network_name = ''ext_net''\<rparr>"

text \<open>
  \<open>demo_urlsplit\<close> gives what \<^verbatim>\<open>urlsplit\<close> gives on the locators used below: scheme
  \<^verbatim>\<open>https\<close> and the path after the host for \<^verbatim>\<open>https://host/path\<close>, and an empty
  scheme with the whole locator as the path for a plain file path.
\<close>

definition demo_urlsplit :: "string option \<Rightarrow> error + (string \<times> string)" where
  "demo_urlsplit uri =
     (case uri of
        None \<Rightarrow> Inr ([], [])
      | Some u \<Rightarrow>
          if take 8 u = ''https://''
          then Inr (''https'', dropWhile (\<lambda>c. c \<noteq> CHR ''/'') (drop 8 u))
          else Inr ([], u))"

text \<open>
  A host where every path exists, every file has the given digest and 536392192 bytes, and
  every URL opens with the given \<^verbatim>\<open>Content-Disposition\<close> header.
\<close>

definition demo_host :: "string option \<Rightarrow> string option \<Rightarrow> host" where
  "demo_host header digest =
     \<lparr>host_urlsplit = demo_urlsplit,
      host_mkdtemp = (\<lambda>tr. Inr ''/tmp/tmpk3x''),
      host_open_url = (\<lambda>tr uri. Inr \<lparr>content_disposition = header\<rparr>),
      host_copyfileobj = (\<lambda>tr path. Inr ()),
      host_path_exists = (\<lambda>tr path. True),
      host_digest_from_file = (\<lambda>tr path algorithm. Inr digest),
      host_getsize = (\<lambda>tr path. Inr 536392192)\<rparr>"

text \<open>
  Two invocations to start from: allocating a floating IP in \<^verbatim>\<open>ext_net\<close>, and importing
  the Debian image of the module's own example, with a shorter digest.
\<close>

definition demo_fip_module :: fip_module where
  "demo_fip_module =
     \<lparr>fip_floating_ip_address = None, fip_floating_network_name = ''ext_net'',
      fip_project_name = None, fip_state = Present, fip_timeout = 180, fip_wait = True,
      fip_check_mode = False\<rparr>"

definition demo_image_module :: image_module where
  "demo_image_module =
     \<lparr>img_checksum = Some ''sha256:00f76f2f'', img_format = None, img_id = None,
      img_name = None, img_state = Present, img_timeout = 180,
      img_uri = Some ''https://cdimage.debian.org/cdimage/debian-10.qcow2'', img_wait = True,
      img_check_mode = False\<rparr>"

definition debian_image :: image where
  "debian_image =
     \<lparr>image_id = ''77c1a5e0'', image_name = Some ''debian'', image_size = Some 536392192,
      image_disk_format = Some ''qcow2''\<rparr>"

section \<open>Mutations in a trace\<close>

text \<open>
  The calls that change the cloud, and the calls that only tidy up or log. A trace is
  \<open>mutation_last\<close> when nothing but tidying up and logging follows its first mutating
  call; such a trace has at most one mutating call, and every query and every check of the
  invocation stands before it.
\<close>

fun mutating :: "call \<Rightarrow> bool" where
  "mutating (CreateIp a n t timeout wait) = True"
| "mutating (DeleteIp fip ignore_missing) = True"
| "mutating (CreateImage args) = True"
| "mutating (DeleteImage name_or_id wait timeout) = True"
| "mutating c = False"

fun housekeeping :: "call \<Rightarrow> bool" where
  "housekeeping (Cleanup dir) = True"
| "housekeeping (Log msg) = True"
| "housekeeping c = False"

definition mutation_last :: "call list \<Rightarrow> bool" where
  "mutation_last tr =
     (case dropWhile (\<lambda>c. \<not> mutating c) tr of
        [] \<Rightarrow> True
      | m # post \<Rightarrow> list_all housekeeping post)"

text \<open>The errors the modules raise themselves, as opposed to a failing collaborator.\<close>

fun own_error :: "error \<Rightarrow> bool" where
  "own_error (CollaboratorError msg) = False"
| "own_error e = True"

definition own_failure :: "error + 'a \<Rightarrow> bool" where
  "own_failure r = (case r of Inl e \<Rightarrow> own_error e | Inr x \<Rightarrow> False)"

text \<open>
  Three disciplines of an action, from whatever trace it starts: \<open>quiet\<close> actions add no
  mutating call; \<open>silent\<close> actions add only tidying up and logging and always return;
  \<open>disciplined\<close> actions add a part that is \<open>mutation_last\<close> and, when a mutating call
  is in it, do not end with an error of the module's own.
\<close>

definition quiet :: "'a action \<Rightarrow> bool" where
  "quiet m = (\<forall>tr. \<exists>ext r. m tr = (tr @ ext, r) \<and> filter mutating ext = [])"

definition silent :: "'a action \<Rightarrow> bool" where
  "silent m = (\<forall>tr. \<exists>ext x. m tr = (tr @ ext, Inr x) \<and> list_all housekeeping ext)"

definition disciplined :: "'a action \<Rightarrow> bool" where
  "disciplined m =
     (\<forall>tr. \<exists>ext r. m tr = (tr @ ext, r) \<and> mutation_last ext
        \<and> (filter mutating ext = [] \<or> \<not> own_failure r))"

text \<open>
  The claim about format inference speaks of the characters after the last dot of the
  name; \<open>after_last_dot\<close> is that reading, to compare with what the code derives.
\<close>

definition after_last_dot :: "string \<Rightarrow> string" where
  "after_last_dot n = rev (takeWhile (\<lambda>c. c \<noteq> CHR ''.'') (rev n))"

section \<open>Sequencing lemmas\<close>

lemma and_then_succeed: "and_then (succeed x) f tr = f x tr"
  by (simp add: and_then_def succeed_def)

lemma and_then_raise: "and_then (raise e) f tr = (tr, Inl e)"
  by (simp add: and_then_def raise_def)

lemma and_then_Inr: "m tr = (tr', Inr x) \<Longrightarrow> and_then m f tr = f x tr'"
  by (simp add: and_then_def)

lemma and_then_Inl: "m tr = (tr', Inl e) \<Longrightarrow> and_then m f tr = (tr', Inl e)"
  by (simp add: and_then_def)

lemma perform_Inr: "answer tr = Inr v \<Longrightarrow> perform c answer tr = (tr @ [c], Inr v)"
  by (simp add: perform_def)

lemma perform_Inl:
  "answer tr = Inl msg \<Longrightarrow> perform c answer tr = (tr @ [c], Inl (CollaboratorError msg))"
  by (simp add: perform_def)

lemma and_then_perform_Inr:
  "answer tr = Inr v \<Longrightarrow> and_then (perform c answer) f tr = f v (tr @ [c])"
  by (simp add: and_then_def perform_def)

lemma and_then_perform_Inl:
  "answer tr = Inl msg \<Longrightarrow>
   and_then (perform c answer) f tr = (tr @ [c], Inl (CollaboratorError msg))"
  by (simp add: and_then_def perform_def)

text \<open>The definitions to unfold when a module is run on the small cloud and host.\<close>

lemmas run_defs =
  fip_core_def allocate_def release_def get_project_def get_network_def
  image_core_def import'_def import_from_disk_def delete_def derive_format_def
  remote_names_def local_names_def with_temporary_directory_def and_then_def perform_def succeed_def raise_def
  demo_cloud_def demo_host_def demo_urlsplit_def demo_project_def ext_net_def other_net_def
  demo_fip_module_def demo_image_module_def debian_image_def
  truthy_def str_of_def opt_str_def opt_int_def state_str_def checksum_echo_def
  splitext_def basename_def path_join_def split_colon_def Let_def

section \<open>Floating IPs: resolution, allocation and release\<close>

lemma get_project_trace:
  "get_project cloud pn tr0 = (tr, r) \<Longrightarrow> tr = tr0 \<or> tr = tr0 @ [GetProject pn]"
  by (auto simp: get_project_def and_then_def succeed_def raise_def perform_def
      split: if_splits sum.splits option.splits prod.splits)

lemma get_project_current:
  "\<not> truthy pn \<Longrightarrow> get_project cloud pn tr = (tr, Inr (cloud_current_project cloud))"
  by (simp add: get_project_def and_then_succeed succeed_def)

lemma get_network_many:
  assumes "cloud_search_networks cloud tr nn
             (if truthy pid then Some [(''tenant_id'', pid)] else None) = Inr networks"
    and "length networks \<noteq> 1"
  shows "get_network cloud nn pid tr =
           (tr @ [SearchNetworks nn (if truthy pid then Some [(''tenant_id'', pid)] else None)],
            Inl (ValueError (''Network '' @ nn @ '' is invalid or ambiguous'')))"
proof -
  have "networks = [] \<or> length networks > 1"
    using assms(2) by (cases networks) auto
  then show ?thesis
    using assms(1) by (auto simp: get_network_def Let_def and_then_perform_Inr raise_def)
qed

lemma get_network_one:
  assumes "cloud_search_networks cloud tr nn
             (if truthy pid then Some [(''tenant_id'', pid)] else None) = Inr [n]"
  shows "get_network cloud nn pid tr =
           (tr @ [SearchNetworks nn (if truthy pid then Some [(''tenant_id'', pid)] else None)],
            Inr n)"
  using assms by (simp add: get_network_def Let_def and_then_perform_Inr succeed_def)

lemma allocate_network_error:
  assumes "get_project cloud pn tr0 = (tr1, Inr p)"
    and "get_network cloud nn (project_id p) tr1 = (tr2, Inl e)"
  shows "allocate cloud fa nn pn st timeout wait tr0 = (tr2, Inl e)"
  using assms by (simp add: allocate_def and_then_Inr and_then_Inl)

lemma release_network_error:
  assumes "get_project cloud pn tr0 = (tr1, Inr p)"
    and "get_network cloud nn (project_id p) tr1 = (tr2, Inl e)"
  shows "release cloud fa nn pn st timeout wait tr0 = (tr2, Inl e)"
  using assms by (simp add: release_def and_then_Inr and_then_Inl)

text \<open>What is left of \<open>allocate\<close> and of \<open>release\<close> once project and network are resolved.\<close>

lemma allocate_resolved:
  assumes "get_project cloud pn tr0 = (tr1, Inr p)"
    and "get_network cloud nn (project_id p) tr1 = (tr2, Inr n)"
    and "fl = [(''network'', Some (network_id n)), (''tenant_id'', project_id p)]
              @ (if truthy fa then [(''floating_ip_address'', fa)] else [])"
  shows "allocate cloud fa nn pn st timeout wait tr0 =
      and_then
         (perform (SearchFloatingIps fl) (\<lambda>tr. cloud_search_floating_ips cloud tr fl))
         (\<lambda>fips.
            if fips \<noteq> []
            then succeed (False, Some (floating_ip_address (hd fips)), network_name n,
                          network_id n, project_name p, project_id p)
            else
              and_then
                (perform (CreateIp fa (network_id n) (project_id p) timeout wait)
                   (\<lambda>tr. cloud_create_ip cloud tr fa (network_id n) (project_id p) timeout wait))
                (\<lambda>fip. succeed (True, Some (floating_ip_address fip), network_name n,
                                network_id n, project_name p, project_id p)))
         tr2"
  using assms by (simp add: allocate_def and_then_Inr Let_def)

lemma release_resolved:
  assumes "get_project cloud pn tr0 = (tr1, Inr p)"
    and "get_network cloud nn (project_id p) tr1 = (tr2, Inr n)"
    and "fl = [(''floating_ip_address'', fa), (''network'', Some (network_id n)),
               (''tenant_id'', project_id p)]"
  shows "release cloud fa nn pn st timeout wait tr0 =
      and_then
         (perform (SearchFloatingIps fl) (\<lambda>tr. cloud_search_floating_ips cloud tr fl))
         (\<lambda>fips.
            if fips = []
            then succeed (False, fa, network_name n, network_id n, project_name p, project_id p)
            else if length fips \<noteq> 1 then raise AssertionError
            else if length fips > 1
            then raise (ValueError (''Floating ip address '' @ str_of fa @ '' is ambiguous''))
            else
              (let fip = hd fips in
               and_then
                 (perform (DeleteIp fip False) (\<lambda>tr. cloud_delete_ip cloud tr fip False))
                 (\<lambda>_. succeed (True, Some (floating_ip_address fip), network_name n,
                               network_id n, project_name p, project_id p))))
         tr2"
  using assms by (simp add: release_def and_then_Inr Let_def)

text \<open>Running the small cloud: the current project and a network search.\<close>

lemma demo_get_project:
  "get_project (demo_cloud nets fips img) None [] = ([], Inr demo_project)"
  by (simp add: get_project_def truthy_def and_then_succeed succeed_def demo_cloud_def)

lemma demo_get_network:
  "get_network (demo_cloud [ext_net] fips img) ''ext_net'' (project_id demo_project) [] =
     ([SearchNetworks ''ext_net'' (Some [(''tenant_id'', Some ''0ebadc92'')])], Inr ext_net)"
  by (simp add: get_network_def Let_def truthy_def demo_project_def demo_cloud_def
      and_then_perform_Inr succeed_def)

text \<open>
  C4. The network lookup searches by name or id, filtered by tenant exactly when a project
  id is there. When the search returns no network or more than one, \<open>get_network\<close> raises
  \<open>ValueError\<close>, and \<open>allocate\<close> and \<open>release\<close> end there: their trace is the project
  lookup (at most one \<open>GetProject\<close>) followed by the network search, with no floating IP
  search, creation or deletion. When the search returns exactly one network, it is the one
  returned, and the next call of \<open>allocate\<close> and of \<open>release\<close> is the floating IP search
  in that network.
\<close>

theorem get_network_exactly_one:
  assumes "get_project cloud pn tr0 = (tr, Inr p)"
    and "filters = (if truthy (project_id p) then Some [(''tenant_id'', project_id p)] else None)"
    and "cloud_search_networks cloud tr nn filters = Inr networks"
  shows "(tr = tr0 \<or> tr = tr0 @ [GetProject pn])
       \<and> (length networks \<noteq> 1 \<longrightarrow>
            get_network cloud nn (project_id p) tr =
              (tr @ [SearchNetworks nn filters],
               Inl (ValueError (''Network '' @ nn @ '' is invalid or ambiguous'')))
          \<and> allocate cloud fa nn pn st timeout wait tr0 =
              (tr @ [SearchNetworks nn filters],
               Inl (ValueError (''Network '' @ nn @ '' is invalid or ambiguous'')))
          \<and> release cloud fa nn pn st timeout wait tr0 =
              (tr @ [SearchNetworks nn filters],
               Inl (ValueError (''Network '' @ nn @ '' is invalid or ambiguous''))))
       \<and> (\<forall>n. networks = [n] \<longrightarrow>
            get_network cloud nn (project_id p) tr = (tr @ [SearchNetworks nn filters], Inr n)
          \<and> (\<exists>rest r. allocate cloud fa nn pn st timeout wait tr0 =
                (tr @ [SearchNetworks nn filters]
                  @ SearchFloatingIps
                      ([(''network'', Some (network_id n)), (''tenant_id'', project_id p)]
                       @ (if truthy fa then [(''floating_ip_address'', fa)] else [])) # rest,
                 r))
          \<and> (\<exists>rest r. release cloud fa nn pn st timeout wait tr0 =
                (tr @ [SearchNetworks nn filters]
                  @ SearchFloatingIps
                      [(''floating_ip_address'', fa), (''network'', Some (network_id n)),
                       (''tenant_id'', project_id p)] # rest,
                 r)))"
proof (intro conjI allI impI)
  show "tr = tr0 \<or> tr = tr0 @ [GetProject pn]"
    using assms(1) by (rule get_project_trace)
next
  assume many: "length networks \<noteq> 1"
  show g: "get_network cloud nn (project_id p) tr =
          (tr @ [SearchNetworks nn filters],
           Inl (ValueError (''Network '' @ nn @ '' is invalid or ambiguous'')))"
    using get_network_many [of cloud tr nn "project_id p" networks] assms(2,3) many by simp
  show "allocate cloud fa nn pn st timeout wait tr0 =
          (tr @ [SearchNetworks nn filters],
           Inl (ValueError (''Network '' @ nn @ '' is invalid or ambiguous'')))"
    using assms(1) g by (rule allocate_network_error)
  show "release cloud fa nn pn st timeout wait tr0 =
          (tr @ [SearchNetworks nn filters],
           Inl (ValueError (''Network '' @ nn @ '' is invalid or ambiguous'')))"
    using assms(1) g by (rule release_network_error)
next
  fix n assume one: "networks = [n]"
  show g: "get_network cloud nn (project_id p) tr = (tr @ [SearchNetworks nn filters], Inr n)"
    using get_network_one [of cloud tr nn "project_id p" n] assms(2,3) one by simp
  show "\<exists>rest r. allocate cloud fa nn pn st timeout wait tr0 =
                (tr @ [SearchNetworks nn filters]
                  @ SearchFloatingIps
                      ([(''network'', Some (network_id n)), (''tenant_id'', project_id p)]
                       @ (if truthy fa then [(''floating_ip_address'', fa)] else [])) # rest,
                 r)"
    unfolding allocate_resolved [OF assms(1) g refl]
    by (auto simp: and_then_def perform_def succeed_def split: sum.splits)
  show "\<exists>rest r. release cloud fa nn pn st timeout wait tr0 =
                (tr @ [SearchNetworks nn filters]
                  @ SearchFloatingIps
                      [(''floating_ip_address'', fa), (''network'', Some (network_id n)),
                       (''tenant_id'', project_id p)] # rest,
                 r)"
    unfolding release_resolved [OF assms(1) g refl]
    by (auto simp: and_then_def perform_def succeed_def raise_def Let_def split: sum.splits)
qed

text \<open>
  On the small cloud: with two networks named \<^verbatim>\<open>ext_net\<close> the lookup fails and
  \<open>allocate\<close> stops after the network search; with one, it is found.
\<close>

theorem get_network_exactly_one_witness:
  "allocate (demo_cloud [ext_net, other_net] [] None) None ''ext_net'' None Present 180 True [] =
     ([SearchNetworks ''ext_net'' (Some [(''tenant_id'', Some ''0ebadc92'')])],
      Inl (ValueError ''Network ext_net is invalid or ambiguous''))
   \<and> get_network (demo_cloud [ext_net] [] None) ''ext_net'' (Some ''0ebadc92'') [] =
       ([SearchNetworks ''ext_net'' (Some [(''tenant_id'', Some ''0ebadc92'')])], Inr ext_net)"
proof -
  let ?f = "Some [(''tenant_id'', Some ''0ebadc92'')]"
  have f: "?f = (if truthy (project_id demo_project)
                 then Some [(''tenant_id'', project_id demo_project)] else None)"
    by (simp add: truthy_def demo_project_def)
  have two: "cloud_search_networks (demo_cloud [ext_net, other_net] [] None) [] ''ext_net'' ?f
               = Inr [ext_net, other_net]"
    by (simp add: demo_cloud_def)
  have one: "cloud_search_networks (demo_cloud [ext_net] [] None) [] ''ext_net'' ?f
               = Inr [ext_net]"
    by (simp add: demo_cloud_def)
  show ?thesis
    using get_network_exactly_one [OF demo_get_project f two,
            of None Present 180 True]
          get_network_exactly_one [OF demo_get_project f one,
            of None Present 180 True]
    by (simp add: demo_project_def)
qed

text \<open>
  C2. With project and network resolved, \<open>allocate\<close> searches the floating IPs matching
  the network, the project and, when one is given, the address. If the search returns some,
  the outcome is unchanged with the address of the first, and nothing is created. If it
  returns none, one \<open>create_ip\<close> call follows, with the address as given and the caller's
  timeout and wait, and when it returns the outcome is changed with the created address.
\<close>

theorem allocate_existing_or_create:
  assumes "get_project cloud pn tr0 = (tr1, Inr p)"
    and "get_network cloud nn (project_id p) tr1 = (tr2, Inr n)"
    and "fl = [(''network'', Some (network_id n)), (''tenant_id'', project_id p)]
              @ (if truthy fa then [(''floating_ip_address'', fa)] else [])"
    and "cloud_search_floating_ips cloud tr2 fl = Inr fips"
  shows "(fips \<noteq> [] \<longrightarrow>
            allocate cloud fa nn pn st timeout wait tr0 =
              (tr2 @ [SearchFloatingIps fl],
               Inr (False, Some (floating_ip_address (hd fips)), network_name n, network_id n,
                    project_name p, project_id p)))
       \<and> (fips = [] \<longrightarrow>
            fst (allocate cloud fa nn pn st timeout wait tr0) =
              tr2 @ [SearchFloatingIps fl, CreateIp fa (network_id n) (project_id p) timeout wait]
          \<and> (\<forall>fip. cloud_create_ip cloud (tr2 @ [SearchFloatingIps fl]) fa (network_id n)
                      (project_id p) timeout wait = Inr fip \<longrightarrow>
                 snd (allocate cloud fa nn pn st timeout wait tr0) =
                   Inr (True, Some (floating_ip_address fip), network_name n, network_id n,
                        project_name p, project_id p)))"
  unfolding allocate_resolved [OF assms(1,2,3)]
  using assms(4)
  by (auto simp: and_then_def perform_def succeed_def split: sum.splits)

text \<open>
  On the small cloud, in network \<^verbatim>\<open>ext_net\<close> of project \<^verbatim>\<open>devstack\<close> with no address
  given: two floating IPs exist and the first is reported; none exists and one is created.
\<close>

theorem allocate_existing_or_create_witness:
  "allocate (demo_cloud [ext_net] [\<lparr>floating_ip_address = ''203.0.113.2''\<rparr>,
                                   \<lparr>floating_ip_address = ''203.0.113.5''\<rparr>] None)
      None ''ext_net'' None Present 180 True [] =
     ([SearchNetworks ''ext_net'' (Some [(''tenant_id'', Some ''0ebadc92'')]),
       SearchFloatingIps [(''network'', Some ''1cface92''), (''tenant_id'', Some ''0ebadc92'')]],
      Inr (False, Some ''203.0.113.2'', ''ext_net'', ''1cface92'', Some ''devstack'',
           Some ''0ebadc92''))
   \<and> fst (allocate (demo_cloud [ext_net] [] None) None ''ext_net'' None Present 180 True []) =
       [SearchNetworks ''ext_net'' (Some [(''tenant_id'', Some ''0ebadc92'')]),
        SearchFloatingIps [(''network'', Some ''1cface92''), (''tenant_id'', Some ''0ebadc92'')],
        CreateIp None ''1cface92'' (Some ''0ebadc92'') 180 True]
   \<and> snd (allocate (demo_cloud [ext_net] [] None) None ''ext_net'' None Present 180 True []) =
       Inr (True, Some ''203.0.113.9'', ''ext_net'', ''1cface92'', Some ''devstack'',
            Some ''0ebadc92'')"
proof -
  let ?fl = "[(''network'', Some (network_id ext_net)), (''tenant_id'', project_id demo_project)]
              @ (if truthy None then [(''floating_ip_address'', None)] else [])"
  let ?two = "[\<lparr>floating_ip_address = ''203.0.113.2''\<rparr>, \<lparr>floating_ip_address = ''203.0.113.5''\<rparr>]"
  have some: "cloud_search_floating_ips (demo_cloud [ext_net] ?two None)
                [SearchNetworks ''ext_net'' (Some [(''tenant_id'', Some ''0ebadc92'')])] ?fl
              = Inr ?two"
    by (simp add: demo_cloud_def)
  have none: "cloud_search_floating_ips (demo_cloud [ext_net] [] None)
                [SearchNetworks ''ext_net'' (Some [(''tenant_id'', Some ''0ebadc92'')])] ?fl
              = Inr []"
    by (simp add: demo_cloud_def)
  have created: "cloud_create_ip (demo_cloud [ext_net] [] None)
                   ([SearchNetworks ''ext_net'' (Some [(''tenant_id'', Some ''0ebadc92'')])]
                      @ [SearchFloatingIps ?fl])
                   None (network_id ext_net) (project_id demo_project) 180 True
                 = Inr \<lparr>floating_ip_address = ''203.0.113.9''\<rparr>"
    by (simp add: demo_cloud_def)
  show ?thesis
    using allocate_existing_or_create [OF demo_get_project demo_get_network refl some,
            of Present 180 True]
          allocate_existing_or_create [OF demo_get_project demo_get_network refl none,
            of Present 180 True]
          created
    by (simp add: demo_project_def ext_net_def truthy_def)
qed

text \<open>
  C3. With project and network resolved, \<open>release\<close> searches the floating IPs matching
  the address, the network and the project. If there is none, the outcome is unchanged and
  echoes the requested address. If there is exactly one, one \<open>delete_ip\<close> call follows for
  it, and when it returns the outcome is changed with its address. If there are more, the
  assertion fails and nothing is deleted. The test for more than one match that follows
  the assertion never decides anything: \<open>release\<close> is the same function without it.
\<close>

theorem release_absent_one_many:
  assumes "get_project cloud pn tr0 = (tr1, Inr p)"
    and "get_network cloud nn (project_id p) tr1 = (tr2, Inr n)"
    and "fl = [(''floating_ip_address'', fa), (''network'', Some (network_id n)),
               (''tenant_id'', project_id p)]"
    and "cloud_search_floating_ips cloud tr2 fl = Inr fips"
  shows "(fips = [] \<longrightarrow>
            release cloud fa nn pn st timeout wait tr0 =
              (tr2 @ [SearchFloatingIps fl],
               Inr (False, fa, network_name n, network_id n, project_name p, project_id p)))
       \<and> (\<forall>fip. fips = [fip] \<longrightarrow>
            fst (release cloud fa nn pn st timeout wait tr0) =
              tr2 @ [SearchFloatingIps fl, DeleteIp fip False]
          \<and> (cloud_delete_ip cloud (tr2 @ [SearchFloatingIps fl]) fip False = Inr () \<longrightarrow>
               snd (release cloud fa nn pn st timeout wait tr0) =
                 Inr (True, Some (floating_ip_address fip), network_name n, network_id n,
                      project_name p, project_id p)))
       \<and> (length fips > 1 \<longrightarrow>
            release cloud fa nn pn st timeout wait tr0 =
              (tr2 @ [SearchFloatingIps fl], Inl AssertionError))
       \<and> release_single_guard cloud fa nn pn st timeout wait =
           release cloud fa nn pn st timeout wait"
proof -
  have dead: "release_single_guard cloud fa nn pn st timeout wait =
           release cloud fa nn pn st timeout wait"
    by (rule ext)
      (auto simp: release_def release_single_guard_def and_then_def Let_def
         split: prod.splits sum.splits)
  show ?thesis
    unfolding release_resolved [OF assms(1,2,3)]
    using assms(4) dead
    by (auto simp: and_then_def perform_def succeed_def raise_def Let_def split: sum.splits)
qed

text \<open>
  On the small cloud, releasing \<^verbatim>\<open>203.0.113.2\<close> from \<^verbatim>\<open>ext_net\<close>: absent already;
  present once and deleted; present twice and refused.
\<close>

theorem release_absent_one_many_witness:
  "release (demo_cloud [ext_net] [] None) (Some ''203.0.113.2'') ''ext_net'' None Absent 180 True []
     = ([SearchNetworks ''ext_net'' (Some [(''tenant_id'', Some ''0ebadc92'')]),
         SearchFloatingIps [(''floating_ip_address'', Some ''203.0.113.2''),
                            (''network'', Some ''1cface92''), (''tenant_id'', Some ''0ebadc92'')]],
        Inr (False, Some ''203.0.113.2'', ''ext_net'', ''1cface92'', Some ''devstack'',
             Some ''0ebadc92''))
   \<and> fst (release (demo_cloud [ext_net] [\<lparr>floating_ip_address = ''203.0.113.2''\<rparr>] None)
            (Some ''203.0.113.2'') ''ext_net'' None Absent 180 True [])
     = [SearchNetworks ''ext_net'' (Some [(''tenant_id'', Some ''0ebadc92'')]),
        SearchFloatingIps [(''floating_ip_address'', Some ''203.0.113.2''),
                           (''network'', Some ''1cface92''), (''tenant_id'', Some ''0ebadc92'')],
        DeleteIp \<lparr>floating_ip_address = ''203.0.113.2''\<rparr> False]
   \<and> snd (release (demo_cloud [ext_net] [\<lparr>floating_ip_address = ''203.0.113.2''\<rparr>] None)
            (Some ''203.0.113.2'') ''ext_net'' None Absent 180 True [])
     = Inr (True, Some ''203.0.113.2'', ''ext_net'', ''1cface92'', Some ''devstack'',
            Some ''0ebadc92'')
   \<and> release (demo_cloud [ext_net] [\<lparr>floating_ip_address = ''203.0.113.2''\<rparr>,
                                    \<lparr>floating_ip_address = ''203.0.113.2''\<rparr>] None)
        (Some ''203.0.113.2'') ''ext_net'' None Absent 180 True []
     = ([SearchNetworks ''ext_net'' (Some [(''tenant_id'', Some ''0ebadc92'')]),
         SearchFloatingIps [(''floating_ip_address'', Some ''203.0.113.2''),
                            (''network'', Some ''1cface92''), (''tenant_id'', Some ''0ebadc92'')]],
        Inl AssertionError)"
proof -
  let ?sn = "[SearchNetworks ''ext_net'' (Some [(''tenant_id'', Some ''0ebadc92'')])]"
  let ?fl = "[(''floating_ip_address'', Some ''203.0.113.2''),
              (''network'', Some (network_id ext_net)), (''tenant_id'', project_id demo_project)]"
  let ?f = "\<lparr>floating_ip_address = ''203.0.113.2''\<rparr>"
  have s0: "cloud_search_floating_ips (demo_cloud [ext_net] [] None) ?sn ?fl = Inr []"
    by (simp add: demo_cloud_def)
  have s1: "cloud_search_floating_ips (demo_cloud [ext_net] [?f] None) ?sn ?fl = Inr [?f]"
    by (simp add: demo_cloud_def)
  have s2: "cloud_search_floating_ips (demo_cloud [ext_net] [?f, ?f] None) ?sn ?fl = Inr [?f, ?f]"
    by (simp add: demo_cloud_def)
  have d: "cloud_delete_ip (demo_cloud [ext_net] [?f] None) (?sn @ [SearchFloatingIps ?fl]) ?f False
             = Inr ()"
    by (simp add: demo_cloud_def)
  show ?thesis
    using release_absent_one_many [OF demo_get_project demo_get_network refl s0,
            of Absent 180 True]
          release_absent_one_many [OF demo_get_project demo_get_network refl s1,
            of Absent 180 True]
          release_absent_one_many [OF demo_get_project demo_get_network refl s2,
            of Absent 180 True]
          d
    by (simp add: demo_project_def ext_net_def)
qed

section \<open>At most one mutating call, and nothing but tidying up after it\<close>

lemma housekeeping_not_mutating: "housekeeping c \<Longrightarrow> \<not> mutating c"
  by (cases c) simp_all

lemma dropWhile_quiet_append:
  "filter mutating xs = [] \<Longrightarrow>
   dropWhile (\<lambda>c. \<not> mutating c) (xs @ ys) = dropWhile (\<lambda>c. \<not> mutating c) ys"
  by (induction xs) (auto split: if_splits)

lemma dropWhile_quiet:
  "filter mutating xs = [] \<Longrightarrow> dropWhile (\<lambda>c. \<not> mutating c) xs = []"
  by (induction xs) (auto split: if_splits)

lemma mutation_last_quiet: "filter mutating xs = [] \<Longrightarrow> mutation_last xs"
  by (simp only: mutation_last_def dropWhile_quiet list.case)

lemma mutation_last_prepend:
  "filter mutating xs = [] \<Longrightarrow> mutation_last (xs @ ys) = mutation_last ys"
  by (simp add: mutation_last_def dropWhile_quiet_append)

lemma filter_mutating_housekeeping: "list_all housekeeping xs \<Longrightarrow> filter mutating xs = []"
  by (induction xs) (auto dest: housekeeping_not_mutating)

lemma mutation_last_append_housekeeping:
  "mutation_last xs \<Longrightarrow> list_all housekeeping ys \<Longrightarrow> mutation_last (xs @ ys)"
proof (induction xs)
  case Nil
  then show ?case by (simp add: mutation_last_quiet filter_mutating_housekeeping)
next
  case (Cons x xs)
  then show ?case by (cases "mutating x") (simp_all add: mutation_last_def)
qed

lemma mutation_last_Cons_mutating:
  "mutating c \<Longrightarrow> mutation_last (c # xs) = list_all housekeeping xs"
  by (simp add: mutation_last_def)

lemma own_failure_simps [simp]:
  "own_failure (Inl e) = own_error e" "own_failure (Inr x) = False"
  by (simp_all add: own_failure_def)

lemma quiet_succeed: "quiet (succeed x)"
  by (simp add: quiet_def succeed_def)

lemma quiet_raise: "quiet (raise e)"
  by (simp add: quiet_def raise_def)

lemma quiet_perform: "\<not> mutating c \<Longrightarrow> quiet (perform c answer)"
  by (simp add: quiet_def perform_def)

lemma quiet_and_then:
  assumes "quiet m" and "\<And>x. quiet (f x)"
  shows "quiet (and_then m f)"
  unfolding quiet_def
proof
  fix tr
  obtain e1 r1 where m: "m tr = (tr @ e1, r1)" and q1: "filter mutating e1 = []"
    using assms(1) unfolding quiet_def by blast
  show "\<exists>ext r. and_then m f tr = (tr @ ext, r) \<and> filter mutating ext = []"
  proof (cases r1)
    case (Inl e)
    then show ?thesis using m q1 by (simp add: and_then_def)
  next
    case (Inr x)
    obtain e2 r2 where f: "f x (tr @ e1) = ((tr @ e1) @ e2, r2)" and q2: "filter mutating e2 = []"
      using assms(2) [of x] unfolding quiet_def by blast
    have "and_then m f tr = (tr @ (e1 @ e2), r2)"
      using m Inr f by (simp add: and_then_def)
    moreover have "filter mutating (e1 @ e2) = []" using q1 q2 by simp
    ultimately show ?thesis by blast
  qed
qed

lemma quiet_disciplined: "quiet m \<Longrightarrow> disciplined m"
  unfolding quiet_def disciplined_def
  by (metis mutation_last_quiet)

lemma disciplined_and_then:
  assumes "quiet m" and "\<And>x. disciplined (f x)"
  shows "disciplined (and_then m f)"
  unfolding disciplined_def
proof
  fix tr
  obtain e1 r1 where m: "m tr = (tr @ e1, r1)" and q1: "filter mutating e1 = []"
    using assms(1) unfolding quiet_def by blast
  show "\<exists>ext r. and_then m f tr = (tr @ ext, r) \<and> mutation_last ext
          \<and> (filter mutating ext = [] \<or> \<not> own_failure r)"
  proof (cases r1)
    case (Inl e)
    then show ?thesis using m q1 by (auto simp: and_then_def mutation_last_quiet)
  next
    case (Inr x)
    obtain e2 r2 where f: "f x (tr @ e1) = ((tr @ e1) @ e2, r2)" and l2: "mutation_last e2"
      and o2: "filter mutating e2 = [] \<or> \<not> own_failure r2"
      using assms(2) [of x] unfolding disciplined_def by blast
    have "and_then m f tr = (tr @ (e1 @ e2), r2)"
      using m Inr f by (simp add: and_then_def)
    moreover have "mutation_last (e1 @ e2)" using q1 l2 by (simp add: mutation_last_prepend)
    moreover have "filter mutating (e1 @ e2) = [] \<or> \<not> own_failure r2" using q1 o2 by simp
    ultimately show ?thesis by blast
  qed
qed

lemma silent_succeed: "silent (succeed x)"
  by (simp add: silent_def succeed_def)

lemma silent_perform_unit:
  "housekeeping c \<Longrightarrow> silent (perform c (\<lambda>tr. Inr v))"
  by (simp add: silent_def perform_def)

lemma silent_and_then:
  assumes "silent m" and "\<And>x. silent (f x)"
  shows "silent (and_then m f)"
  unfolding silent_def
proof
  fix tr
  obtain e1 x where m: "m tr = (tr @ e1, Inr x)" and h1: "list_all housekeeping e1"
    using assms(1) unfolding silent_def by blast
  obtain e2 y where f: "f x (tr @ e1) = ((tr @ e1) @ e2, Inr y)" and h2: "list_all housekeeping e2"
    using assms(2) [of x] unfolding silent_def by blast
  have "and_then m f tr = (tr @ (e1 @ e2), Inr y)"
    using m f by (simp add: and_then_def)
  then show "\<exists>ext x. and_then m f tr = (tr @ ext, Inr x) \<and> list_all housekeeping ext"
    using h1 h2 by (metis list_all_append)
qed

lemma disciplined_mutation:
  assumes "mutating c" and "\<And>x. silent (f x)"
  shows "disciplined (and_then (perform c answer) f)"
  unfolding disciplined_def
proof
  fix tr
  show "\<exists>ext r. and_then (perform c answer) f tr = (tr @ ext, r) \<and> mutation_last ext
          \<and> (filter mutating ext = [] \<or> \<not> own_failure r)"
  proof (cases "answer tr")
    case (Inl msg)
    then have "and_then (perform c answer) f tr = (tr @ [c], Inl (CollaboratorError msg))"
      by (simp add: and_then_def perform_def)
    then show ?thesis using assms(1) by (auto simp: mutation_last_def)
  next
    case (Inr v)
    obtain e2 y where f: "f v (tr @ [c]) = ((tr @ [c]) @ e2, Inr y)" and h2: "list_all housekeeping e2"
      using assms(2) [of v] unfolding silent_def by blast
    have "and_then (perform c answer) f tr = (tr @ (c # e2), Inr y)"
      using Inr f by (simp add: and_then_def perform_def)
    moreover have "mutation_last (c # e2)"
      using assms(1) h2 by (simp add: mutation_last_Cons_mutating)
    ultimately show ?thesis by auto
  qed
qed

lemma disciplined_with_temporary_directory:
  assumes "\<And>dir. disciplined (body dir)"
  shows "disciplined (with_temporary_directory host body)"
  unfolding disciplined_def
proof
  fix tr
  let ?g = "\<lambda>dir tr. case body dir tr of (tr', r) \<Rightarrow> (tr' @ [Cleanup dir], r)"
  show "\<exists>ext r. with_temporary_directory host body tr = (tr @ ext, r) \<and> mutation_last ext
          \<and> (filter mutating ext = [] \<or> \<not> own_failure r)"
  proof (cases "host_mkdtemp host tr")
    case (Inl msg)
    then have "with_temporary_directory host body tr
                 = (tr @ [TemporaryDirectory], Inl (CollaboratorError msg))"
      by (simp add: with_temporary_directory_def and_then_def perform_def)
    then show ?thesis by (auto simp: mutation_last_def)
  next
    case (Inr dir)
    obtain e2 r2 where b: "body dir (tr @ [TemporaryDirectory]) = ((tr @ [TemporaryDirectory]) @ e2, r2)"
      and l2: "mutation_last e2" and o2: "filter mutating e2 = [] \<or> \<not> own_failure r2"
      using assms [of dir] unfolding disciplined_def by blast
    have "with_temporary_directory host body tr
            = (tr @ (TemporaryDirectory # e2 @ [Cleanup dir]), r2)"
      using Inr b by (simp add: with_temporary_directory_def and_then_def perform_def)
    moreover have "mutation_last (TemporaryDirectory # e2 @ [Cleanup dir])"
      using mutation_last_prepend [of "[TemporaryDirectory]" "e2 @ [Cleanup dir]"]
        mutation_last_append_housekeeping [OF l2, of "[Cleanup dir]"] by simp
    moreover have "filter mutating (TemporaryDirectory # e2 @ [Cleanup dir]) = [] \<or> \<not> own_failure r2"
      using o2 by auto
    ultimately show ?thesis by blast
  qed
qed


lemma disciplined_then_silent:
  assumes "disciplined m" and "\<And>x. silent (f x)"
  shows "disciplined (and_then m f)"
  unfolding disciplined_def
proof
  fix tr
  obtain e1 r1 where m: "m tr = (tr @ e1, r1)" and l1: "mutation_last e1"
    and o1: "filter mutating e1 = [] \<or> \<not> own_failure r1"
    using assms(1) unfolding disciplined_def by blast
  show "\<exists>ext r. and_then m f tr = (tr @ ext, r) \<and> mutation_last ext
          \<and> (filter mutating ext = [] \<or> \<not> own_failure r)"
  proof (cases r1)
    case (Inl e)
    then show ?thesis using m l1 o1 by (auto simp: and_then_def)
  next
    case (Inr x)
    obtain e2 y where f: "f x (tr @ e1) = ((tr @ e1) @ e2, Inr y)" and h2: "list_all housekeeping e2"
      using assms(2) [of x] unfolding silent_def by blast
    have "and_then m f tr = (tr @ (e1 @ e2), Inr y)"
      using m Inr f by (simp add: and_then_def)
    moreover have "mutation_last (e1 @ e2)"
      using l1 h2 by (rule mutation_last_append_housekeeping)
    ultimately show ?thesis by auto
  qed
qed

lemma quiet_get_project: "quiet (get_project cloud pn)"
  unfolding get_project_def
  by (auto intro!: quiet_and_then quiet_succeed quiet_raise quiet_perform split: option.splits)

lemma quiet_get_network: "quiet (get_network cloud nn pid)"
  unfolding get_network_def Let_def
  by (auto intro!: quiet_and_then quiet_succeed quiet_raise quiet_perform)

lemma disciplined_allocate: "disciplined (allocate cloud fa nn pn st timeout wait)"
  unfolding allocate_def Let_def
  apply (rule disciplined_and_then [OF quiet_get_project])
  apply (rule disciplined_and_then [OF quiet_get_network])
  apply (rule disciplined_and_then)
   apply (simp add: quiet_perform)
  apply (simp add: quiet_disciplined quiet_succeed disciplined_mutation silent_succeed)
  done

lemma disciplined_release: "disciplined (release cloud fa nn pn st timeout wait)"
  unfolding release_def Let_def
  apply (rule disciplined_and_then [OF quiet_get_project])
  apply (rule disciplined_and_then [OF quiet_get_network])
  apply (rule disciplined_and_then)
   apply (simp add: quiet_perform)
  apply (simp add: quiet_disciplined quiet_succeed quiet_raise disciplined_mutation silent_succeed)
  done

lemma disciplined_fip_core: "disciplined (fip_core cloud m)"
  unfolding fip_core_def Let_def
  apply (cases "fip_check_mode m")
   apply (simp add: quiet_disciplined quiet_succeed)
  apply (simp only: if_False)
  apply (rule disciplined_then_silent)
   apply (cases "fip_state m")
    apply (simp_all add: disciplined_allocate disciplined_release silent_succeed split: prod.splits)
  done


lemma disciplined_query:
  "\<not> mutating c \<Longrightarrow> (\<And>x. disciplined (f x)) \<Longrightarrow> disciplined (and_then (perform c answer) f)"
  by (rule disciplined_and_then) (simp_all add: quiet_perform)

lemma disciplined_if:
  "(c \<Longrightarrow> disciplined a) \<Longrightarrow> (\<not> c \<Longrightarrow> disciplined b) \<Longrightarrow> disciplined (if c then a else b)"
  by simp

lemma disciplined_option:
  "disciplined a \<Longrightarrow> (\<And>y. disciplined (f y)) \<Longrightarrow>
   disciplined (case x of None \<Rightarrow> a | Some y \<Rightarrow> f y)"
  by (cases x) simp_all

lemma disciplined_raise: "disciplined (raise e)"
  by (simp add: quiet_disciplined quiet_raise)

lemma disciplined_succeed: "disciplined (succeed x)"
  by (simp add: quiet_disciplined quiet_succeed)

lemma disciplined_import_from_disk:
  "disciplined (import_from_disk cloud host algorithm checksum format id' name st timeout path wait)"
proof (cases path)
  case None
  then show ?thesis by (simp add: import_from_disk_def disciplined_raise)
next
  case (Some p)
  have upload: "disciplined
      (and_then (perform (CreateImage args) (\<lambda>tr. cloud_create_image cloud tr args))
         (\<lambda>image.
            and_then
              (if image_size image \<noteq> Some size_on_disk
               then perform (Log ''[DEBUG] image size on disk differs from the uploaded size'')
                      (\<lambda>tr. Inr ())
               else succeed ())
              (\<lambda>_. succeed (image_id image, image_size image))))" for args size_on_disk
    by (rule disciplined_mutation)
      (auto intro!: silent_and_then silent_succeed silent_perform_unit)
  have verify: "quiet
      (if truthy checksum
        then and_then
               (perform (DigestFromFile p algorithm)
                  (\<lambda>tr. host_digest_from_file host tr p algorithm))
               (\<lambda>checksum_on_disk.
                  if checksum \<noteq> checksum_on_disk
                  then raise (Exception (''Checksum mismatch '' @ str_of checksum @ '' != ''
                                          @ str_of checksum_on_disk))
                  else succeed ())
        else succeed ())"
    by (auto intro!: quiet_and_then quiet_succeed quiet_raise quiet_perform)
  show ?thesis
    unfolding import_from_disk_def Some option.case Let_def
    apply (rule disciplined_query, simp)
    apply (rule disciplined_if, rule disciplined_raise)
    apply (rule disciplined_and_then [OF verify])
    apply (rule disciplined_query, simp)
    apply (rule disciplined_option)
     apply (rule disciplined_query, simp)
     apply (rule upload)
    apply (rule disciplined_raise)
    done
qed


lemma quiet_derive_format: "quiet (derive_format format name)"
  unfolding derive_format_def Let_def
  by (auto intro!: quiet_succeed quiet_raise split: option.splits)

lemma quiet_local_names: "quiet (local_names id' name uri)"
  unfolding local_names_def Let_def
  by (auto intro!: quiet_succeed quiet_raise split: option.splits)

lemma silent_prod: "(\<And>a b. silent (f a b)) \<Longrightarrow> silent (case x of (a, b) \<Rightarrow> f a b)"
  by (cases x) simp

lemma disciplined_upload_outcome:
  "disciplined
     (and_then (import_from_disk cloud host algorithm checksum format id' name st timeout path wait)
        (\<lambda>(id', size). succeed (True, Some id', name, size, format)))"
  by (rule disciplined_then_silent [OF disciplined_import_from_disk])
    (simp add: silent_succeed split: prod.splits)

lemma disciplined_import:
  "disciplined (import' cloud host algorithm checksum format id' name st timeout uri wait)"
proof (cases "host_urlsplit host uri")
  case (Inl e)
  then show ?thesis by (simp add: import'_def disciplined_raise)
next
  case (Inr sp)
  obtain uri_scheme uri_path where sp: "sp = (uri_scheme, uri_path)" by (cases sp)
  show ?thesis
    unfolding import'_def Inr sp sum.case prod.case
    apply (rule disciplined_if)
     apply (rule disciplined_with_temporary_directory)
     apply (rule disciplined_and_then)
      apply (auto intro!: quiet_and_then quiet_succeed quiet_raise quiet_perform
               quiet_derive_format simp: Let_def split: prod.splits option.splits)[1]
     apply (auto intro!: disciplined_succeed disciplined_upload_outcome
               split: sum.splits prod.splits)[1]
    apply (rule disciplined_and_then [OF quiet_local_names])
    apply (simp only: split: prod.split, intro allI impI)
    apply (rule disciplined_query, simp)
    apply (rule disciplined_option)
     apply (rule disciplined_and_then [OF quiet_derive_format])
     apply (rule disciplined_if, rule disciplined_raise)
     apply (rule disciplined_upload_outcome)
    apply (rule disciplined_succeed)
    done
qed

lemma disciplined_delete:
  "disciplined (delete cloud host algorithm checksum format id' name st timeout uri wait)"
  unfolding delete_def
  apply (rule disciplined_and_then)
   apply (auto intro!: quiet_succeed quiet_raise simp: Let_def
            split: option.splits sum.splits prod.splits)[1]
  apply (simp only: split: prod.split, intro allI impI)
  apply (rule disciplined_query, simp)
  apply (rule disciplined_option)
   apply (rule disciplined_succeed)
  apply (rule disciplined_mutation, simp)
  apply (rule silent_succeed)
  done

lemma disciplined_image_core: "disciplined (image_core cloud host m)"
  unfolding image_core_def Let_def
  apply (rule disciplined_and_then)
   apply (auto intro!: quiet_succeed quiet_raise split: option.splits list.splits)[1]
  apply (simp only: split: prod.split, intro allI impI)
  apply (rule disciplined_if, rule disciplined_succeed)
  apply (rule disciplined_then_silent)
   apply (cases "img_state m")
    apply (simp_all add: disciplined_import disciplined_delete silent_succeed split: prod.splits)
  done

lemma mutation_last_at_most_one: "mutation_last tr \<Longrightarrow> length (filter mutating tr) \<le> 1"
proof (induction tr)
  case Nil
  then show ?case by simp
next
  case (Cons c tr)
  show ?case
  proof (cases "mutating c")
    case True
    then have "list_all housekeeping tr"
      using Cons.prems by (simp add: mutation_last_Cons_mutating)
    then show ?thesis using True by (simp add: filter_mutating_housekeeping)
  next
    case False
    then have "mutation_last tr" using Cons.prems by (simp add: mutation_last_def)
    then show ?thesis using False Cons.IH by simp
  qed
qed

lemma disciplined_from_start:
  assumes "disciplined m"
  shows "mutation_last (fst (m [])) \<and> length (filter mutating (fst (m []))) \<le> 1
       \<and> (own_failure (snd (m [])) \<longrightarrow> filter mutating (fst (m [])) = [])"
proof -
  obtain ext r where m: "m [] = ([] @ ext, r)" and l: "mutation_last ext"
    and o: "filter mutating ext = [] \<or> \<not> own_failure r"
    using assms unfolding disciplined_def by blast
  show ?thesis using m l o mutation_last_at_most_one [OF l] by auto
qed

text \<open>
  C8. An invocation of either module, started with no call made, makes at most one
  mutating call (\<open>create_ip\<close>, \<open>delete_ip\<close>, \<open>create_image\<close>, \<open>delete_image\<close>). Nothing
  follows that call but the log line about the size and the removal of the temporary
  directory, so every lookup of project, network, floating IP and image and the digest
  check stand before it and have returned. When the invocation ends with an error the
  module raises itself (a failed resolution, a checksum mismatch, the assertion), no
  mutating call was made at all.
\<close>

theorem one_mutation_after_resolution:
  "mutation_last (fst (fip_core cloud fm []))
   \<and> length (filter mutating (fst (fip_core cloud fm []))) \<le> 1
   \<and> (own_failure (snd (fip_core cloud fm [])) \<longrightarrow>
        filter mutating (fst (fip_core cloud fm [])) = [])
   \<and> mutation_last (fst (image_core cloud host im []))
   \<and> length (filter mutating (fst (image_core cloud host im []))) \<le> 1
   \<and> (own_failure (snd (image_core cloud host im [])) \<longrightarrow>
        filter mutating (fst (image_core cloud host im [])) = [])"
  using disciplined_from_start [OF disciplined_fip_core, of cloud fm]
    disciplined_from_start [OF disciplined_image_core, of cloud host im]
  by simp

text \<open>
  On the small cloud: releasing an address that two floating IPs carry fails the assertion,
  and importing an image whose digest differs fails the check; neither run has a mutating
  call.
\<close>

theorem one_mutation_after_resolution_witness:
  "own_failure (snd (fip_core
      (demo_cloud [ext_net] [\<lparr>floating_ip_address = ''203.0.113.2''\<rparr>,
                             \<lparr>floating_ip_address = ''203.0.113.2''\<rparr>] None)
      (demo_fip_module\<lparr>fip_floating_ip_address := Some ''203.0.113.2'', fip_state := Absent\<rparr>)
      []))
   \<and> filter mutating (fst (fip_core
      (demo_cloud [ext_net] [\<lparr>floating_ip_address = ''203.0.113.2''\<rparr>,
                             \<lparr>floating_ip_address = ''203.0.113.2''\<rparr>] None)
      (demo_fip_module\<lparr>fip_floating_ip_address := Some ''203.0.113.2'', fip_state := Absent\<rparr>)
      [])) = []
   \<and> own_failure (snd (image_core (demo_cloud [] [] None) (demo_host None (Some ''ffff''))
        demo_image_module []))
   \<and> filter mutating (fst (image_core (demo_cloud [] [] None) (demo_host None (Some ''ffff''))
        demo_image_module [])) = []"
proof -
  let ?c = "demo_cloud [ext_net] [\<lparr>floating_ip_address = ''203.0.113.2''\<rparr>,
                                  \<lparr>floating_ip_address = ''203.0.113.2''\<rparr>] None"
  let ?m = "demo_fip_module\<lparr>fip_floating_ip_address := Some ''203.0.113.2'', fip_state := Absent\<rparr>"
  have a: "own_failure (snd (fip_core ?c ?m []))"
    by (simp add: run_defs)
  have b: "own_failure (snd (image_core (demo_cloud [] [] None) (demo_host None (Some ''ffff''))
        demo_image_module []))"
    by (simp add: run_defs)
  show ?thesis
    using one_mutation_after_resolution
            [of ?c ?m "demo_host None (Some ''ffff'')" demo_image_module]
          one_mutation_after_resolution
            [of "demo_cloud [] [] None" ?m "demo_host None (Some ''ffff'')" demo_image_module]
          a b
    by blast
qed

section \<open>Check mode and the checksum parameter\<close>

lemma split_colon_join:
  assumes "CHR '':'' \<in> set c"
  shows "\<exists>a b. split_colon c = [a, b] \<and> a @ '':'' @ b = c"
proof -
  let ?d = "dropWhile (\<lambda>x. x \<noteq> CHR '':'') c"
  have ne: "?d \<noteq> []" using assms by (simp add: dropWhile_eq_Nil_conv)
  then have "hd ?d = CHR '':''" using hd_dropWhile [of "\<lambda>x. x \<noteq> CHR '':''" c] by simp
  then have "?d = CHR '':'' # tl ?d" using ne by (cases ?d) simp_all
  then have "takeWhile (\<lambda>x. x \<noteq> CHR '':'') c @ '':'' @ tl ?d = c"
    using takeWhile_dropWhile_id [of "\<lambda>x. x \<noteq> CHR '':''" c] by simp
  then show ?thesis using assms by (simp add: split_colon_def)
qed

lemma split_colon_none: "CHR '':'' \<notin> set c \<Longrightarrow> split_colon c = [c]"
  by (simp add: split_colon_def)

text \<open>What \<open>image_core\<close> does once the checksum parameter is taken apart.\<close>

lemma image_core_parsed:
  assumes "\<not> truthy (img_checksum im) \<or> (\<exists>c. img_checksum im = Some c \<and> CHR '':'' \<in> set c)"
  shows "\<exists>algorithm checksum.
     checksum_echo algorithm checksum
       = (if truthy (img_checksum im) then opt_str (img_checksum im) else PNone)
   \<and> image_core cloud host im tr =
      (if img_check_mode im
       then (tr, Inr
             [(''changed'', PBool False),
              (''checksum'', checksum_echo algorithm checksum),
              (''format'', opt_str (img_format im)),
              (''id'', opt_str (img_id im)),
              (''name'', opt_str (img_name im)),
              (''state'', PStr (state_str (img_state im))),
              (''timeout'', PInt (img_timeout im)),
              (''uri'', opt_str (img_uri im)),
              (''wait'', PBool (img_wait im))])
       else
        and_then
          (case img_state im of
             Present \<Rightarrow> import' cloud host algorithm checksum (img_format im) (img_id im)
                          (img_name im) (img_state im) (img_timeout im) (img_uri im) (img_wait im)
           | Absent \<Rightarrow> delete cloud host algorithm checksum (img_format im) (img_id im)
                          (img_name im) (img_state im) (img_timeout im) (img_uri im) (img_wait im))
          (\<lambda>(changed, id', name, size, format).
             succeed
               [(''changed'', PBool changed),
                (''size'', opt_int size),
                (''checksum'', checksum_echo algorithm checksum),
                (''format'', opt_str format),
                (''id'', opt_str id'),
                (''name'', opt_str name),
                (''state'', PStr (state_str (img_state im))),
                (''timeout'', PInt (img_timeout im)),
                (''uri'', opt_str (img_uri im)),
                (''wait'', PBool (img_wait im))]) tr)"
proof (cases "truthy (img_checksum im)")
  case False
  then show ?thesis
    by (intro exI [of _ None])
      (auto simp: image_core_def Let_def truthy_def and_then_succeed succeed_def
         checksum_echo_def split: option.splits)
next
  case True
  then obtain c where c: "img_checksum im = Some c" "c \<noteq> []" "CHR '':'' \<in> set c"
    using assms by (auto simp: truthy_def split: option.splits)
  obtain a b where ab: "split_colon c = [a, b]" "a @ '':'' @ b = c"
    using split_colon_join [OF c(3)] by blast
  show ?thesis
    using c ab True
    by (intro exI [of _ "Some a"] exI [of _ "Some b"])
      (simp add: image_core_def Let_def and_then_succeed succeed_def checksum_echo_def
         str_of_def opt_str_def)
qed

text \<open>
  C7, as the code has it. In check mode \<open>fip_core\<close> returns, for every input and without
  any call, the parameters it was given with \<open>changed\<close> false. \<open>image_core\<close> takes the
  checksum apart before it looks at the check-mode flag: when the checksum is absent, empty
  or contains a colon, it returns the parameters with \<open>changed\<close> false and makes no call
  (an empty checksum comes back as null); a non-empty checksum without a colon ends the
  module through \<open>fail_json\<close>, again without any call.
\<close>

theorem check_mode_echo:
  "(fip_check_mode fm \<longrightarrow>
      fip_core cloud fm tr =
        (tr, Inr [(''changed'', PBool False),
                  (''floating_ip_address'', opt_str (fip_floating_ip_address fm)),
                  (''floating_network_name'', PStr (fip_floating_network_name fm)),
                  (''project_name'', opt_str (fip_project_name fm)),
                  (''state'', PStr (state_str (fip_state fm))),
                  (''timeout'', PInt (fip_timeout fm)),
                  (''wait'', PBool (fip_wait fm))]))
   \<and> (img_check_mode im
        \<and> (\<not> truthy (img_checksum im) \<or> (\<exists>c. img_checksum im = Some c \<and> CHR '':'' \<in> set c)) \<longrightarrow>
      image_core cloud host im tr =
        (tr, Inr [(''changed'', PBool False),
                  (''checksum'', if truthy (img_checksum im) then opt_str (img_checksum im)
                                 else PNone),
                  (''format'', opt_str (img_format im)),
                  (''id'', opt_str (img_id im)),
                  (''name'', opt_str (img_name im)),
                  (''state'', PStr (state_str (img_state im))),
                  (''timeout'', PInt (img_timeout im)),
                  (''uri'', opt_str (img_uri im)),
                  (''wait'', PBool (img_wait im))]))
   \<and> (\<forall>c. img_checksum im = Some c \<and> c \<noteq> [] \<and> CHR '':'' \<notin> set c \<longrightarrow>
        image_core cloud host im tr =
          (tr, Inl (FailJson
             ''The checksum parameter has to be in format <algorithm>:<checksum>'')))"
proof (intro conjI impI allI)
  assume "fip_check_mode fm"
  then show "fip_core cloud fm tr =
        (tr, Inr [(''changed'', PBool False),
                  (''floating_ip_address'', opt_str (fip_floating_ip_address fm)),
                  (''floating_network_name'', PStr (fip_floating_network_name fm)),
                  (''project_name'', opt_str (fip_project_name fm)),
                  (''state'', PStr (state_str (fip_state fm))),
                  (''timeout'', PInt (fip_timeout fm)),
                  (''wait'', PBool (fip_wait fm))])"
    by (simp add: fip_core_def Let_def succeed_def)
next
  assume a: "img_check_mode im
        \<and> (\<not> truthy (img_checksum im) \<or> (\<exists>c. img_checksum im = Some c \<and> CHR '':'' \<in> set c))"
  then show "image_core cloud host im tr =
        (tr, Inr [(''changed'', PBool False),
                  (''checksum'', if truthy (img_checksum im) then opt_str (img_checksum im)
                                 else PNone),
                  (''format'', opt_str (img_format im)),
                  (''id'', opt_str (img_id im)),
                  (''name'', opt_str (img_name im)),
                  (''state'', PStr (state_str (img_state im))),
                  (''timeout'', PInt (img_timeout im)),
                  (''uri'', opt_str (img_uri im)),
                  (''wait'', PBool (img_wait im))])"
    using image_core_parsed [of im cloud host tr] by auto
next
  fix c assume "img_checksum im = Some c \<and> c \<noteq> [] \<and> CHR '':'' \<notin> set c"
  then show "image_core cloud host im tr =
          (tr, Inl (FailJson
             ''The checksum parameter has to be in format <algorithm>:<checksum>''))"
    by (simp add: image_core_def Let_def split_colon_none and_then_raise)
qed

text \<open>
  On the small cloud in check mode: the floating IP parameters and the image parameters come
  back, and the checksum \<^verbatim>\<open>md5\<close> is refused.
\<close>

theorem check_mode_echo_witness:
  "fip_core (demo_cloud [] [] None) (demo_fip_module\<lparr>fip_check_mode := True\<rparr>) [] =
     ([], Inr [(''changed'', PBool False), (''floating_ip_address'', PNone),
               (''floating_network_name'', PStr ''ext_net''), (''project_name'', PNone),
               (''state'', PStr ''present''), (''timeout'', PInt 180), (''wait'', PBool True)])
   \<and> image_core (demo_cloud [] [] None) (demo_host None None)
       (demo_image_module\<lparr>img_check_mode := True\<rparr>) [] =
     ([], Inr [(''changed'', PBool False), (''checksum'', PStr ''sha256:00f76f2f''),
               (''format'', PNone), (''id'', PNone), (''name'', PNone),
               (''state'', PStr ''present''), (''timeout'', PInt 180),
               (''uri'', PStr ''https://cdimage.debian.org/cdimage/debian-10.qcow2''),
               (''wait'', PBool True)])
   \<and> image_core (demo_cloud [] [] None) (demo_host None None)
       (demo_image_module\<lparr>img_checksum := Some ''md5'', img_check_mode := True\<rparr>) [] =
     ([], Inl (FailJson ''The checksum parameter has to be in format <algorithm>:<checksum>''))"
  using check_mode_echo [of "demo_fip_module\<lparr>fip_check_mode := True\<rparr>" "demo_cloud [] [] None" "[]"
          "demo_image_module\<lparr>img_check_mode := True\<rparr>" "demo_host None None"]
        check_mode_echo [of "demo_fip_module\<lparr>fip_check_mode := True\<rparr>" "demo_cloud [] [] None" "[]"
          "demo_image_module\<lparr>img_checksum := Some ''md5'', img_check_mode := True\<rparr>"
          "demo_host None None"]
  by (simp add: demo_fip_module_def demo_image_module_def truthy_def opt_str_def state_str_def)

text \<open>
  C7 as stated fails: in check mode, with a checksum that has no colon, \<open>image_core\<close> does
  not return \<open>changed\<close> false but leaves through \<open>fail_json\<close>.
\<close>

theorem check_mode_malformed_checksum_fails:
  "image_core (demo_cloud [] [] None) (demo_host None None)
     (demo_image_module\<lparr>img_checksum := Some ''00f76f2f'', img_check_mode := True\<rparr>) []
   = ([], Inl (FailJson ''The checksum parameter has to be in format <algorithm>:<checksum>''))"
  by (simp add: run_defs)

section \<open>Deleting an absent image, and importing under an id alone\<close>

lemma delete_absent_given:
  assumes "cloud_get_image cloud tr key = Inr None"
    and "truthy id' \<or> truthy name" and "key = (if truthy id' then id' else name)"
  shows "delete cloud host algorithm checksum format id' name st timeout uri wait tr =
           (tr @ [GetImage key], Inr (False, id', name, None, None))"
  using assms
  by (auto simp: delete_def Let_def and_then_succeed and_then_perform_Inr succeed_def)

lemma delete_absent_derived:
  assumes "cloud_get_image cloud tr key = Inr None"
    and "\<not> truthy id'" and "\<not> truthy name"
    and "host_urlsplit host uri = Inr (''file'', path) \<or> host_urlsplit host uri = Inr ([], path)"
    and "uri = Some u" and "basename u \<noteq> []" and "key = Some (basename u)"
  shows "delete cloud host algorithm checksum format id' name st timeout uri wait tr =
           (tr @ [GetImage key], Inr (False, id', Some (basename u), None, None))"
  using assms
  by (auto simp: delete_def Let_def and_then_succeed and_then_perform_Inr succeed_def)

text \<open>
  C9. Outside check mode, with state absent and a well-formed checksum parameter, when the
  lookup by the identity key finds no image, \<open>image_core\<close> makes that one lookup and
  reports \<open>changed\<close> false with size and format null, whatever format the caller gave.
  The id is the one given. The name is the one given when an id or a name was given, and
  the base name of the local locator when neither was.
\<close>

theorem delete_absent_null_size_format:
  assumes "\<not> img_check_mode im" and "img_state im = Absent"
    and "\<not> truthy (img_checksum im) \<or> (\<exists>c. img_checksum im = Some c \<and> CHR '':'' \<in> set c)"
    and "cloud_get_image cloud tr key = Inr None"
  shows "((truthy (img_id im) \<or> truthy (img_name im))
            \<and> key = (if truthy (img_id im) then img_id im else img_name im) \<longrightarrow>
          image_core cloud host im tr =
            (tr @ [GetImage key],
             Inr [(''changed'', PBool False),
                  (''size'', PNone),
                  (''checksum'', if truthy (img_checksum im) then opt_str (img_checksum im)
                                 else PNone),
                  (''format'', PNone),
                  (''id'', opt_str (img_id im)),
                  (''name'', opt_str (img_name im)),
                  (''state'', PStr ''absent''),
                  (''timeout'', PInt (img_timeout im)),
                  (''uri'', opt_str (img_uri im)),
                  (''wait'', PBool (img_wait im))]))
       \<and> (\<not> truthy (img_id im) \<and> \<not> truthy (img_name im)
            \<and> (\<exists>path. host_urlsplit host (img_uri im) = Inr (''file'', path)
                        \<or> host_urlsplit host (img_uri im) = Inr ([], path))
            \<and> img_uri im = Some u \<and> basename u \<noteq> [] \<and> key = Some (basename u) \<longrightarrow>
          image_core cloud host im tr =
            (tr @ [GetImage key],
             Inr [(''changed'', PBool False),
                  (''size'', PNone),
                  (''checksum'', if truthy (img_checksum im) then opt_str (img_checksum im)
                                 else PNone),
                  (''format'', PNone),
                  (''id'', opt_str (img_id im)),
                  (''name'', PStr (basename u)),
                  (''state'', PStr ''absent''),
                  (''timeout'', PInt (img_timeout im)),
                  (''uri'', opt_str (img_uri im)),
                  (''wait'', PBool (img_wait im))]))"
proof -
  obtain algorithm checksum where
    e: "checksum_echo algorithm checksum
          = (if truthy (img_checksum im) then opt_str (img_checksum im) else PNone)"
    and c: "image_core cloud host im tr =
        and_then
          (delete cloud host algorithm checksum (img_format im) (img_id im)
                          (img_name im) (img_state im) (img_timeout im) (img_uri im) (img_wait im))
          (\<lambda>(changed, id', name, size, format).
             succeed
               [(''changed'', PBool changed),
                (''size'', opt_int size),
                (''checksum'', checksum_echo algorithm checksum),
                (''format'', opt_str format),
                (''id'', opt_str id'),
                (''name'', opt_str name),
                (''state'', PStr (state_str (img_state im))),
                (''timeout'', PInt (img_timeout im)),
                (''uri'', opt_str (img_uri im)),
                (''wait'', PBool (img_wait im))]) tr"
    using image_core_parsed [OF assms(3), of cloud host tr] assms(1,2) by auto
  show ?thesis
  proof (intro conjI impI)
    assume "(truthy (img_id im) \<or> truthy (img_name im))
            \<and> key = (if truthy (img_id im) then img_id im else img_name im)"
    then have "delete cloud host algorithm checksum (img_format im) (img_id im)
                 (img_name im) (img_state im) (img_timeout im) (img_uri im) (img_wait im) tr =
               (tr @ [GetImage key], Inr (False, img_id im, img_name im, None, None))"
      using delete_absent_given [OF assms(4)] by blast
    then show "image_core cloud host im tr =
            (tr @ [GetImage key],
             Inr [(''changed'', PBool False),
                  (''size'', PNone),
                  (''checksum'', if truthy (img_checksum im) then opt_str (img_checksum im)
                                 else PNone),
                  (''format'', PNone),
                  (''id'', opt_str (img_id im)),
                  (''name'', opt_str (img_name im)),
                  (''state'', PStr ''absent''),
                  (''timeout'', PInt (img_timeout im)),
                  (''uri'', opt_str (img_uri im)),
                  (''wait'', PBool (img_wait im))])"
      unfolding c using e assms(2)
      by (simp add: and_then_def succeed_def opt_int_def opt_str_def state_str_def)
  next
    assume "\<not> truthy (img_id im) \<and> \<not> truthy (img_name im)
            \<and> (\<exists>path. host_urlsplit host (img_uri im) = Inr (''file'', path)
                        \<or> host_urlsplit host (img_uri im) = Inr ([], path))
            \<and> img_uri im = Some u \<and> basename u \<noteq> [] \<and> key = Some (basename u)"
    then have "delete cloud host algorithm checksum (img_format im) (img_id im)
                 (img_name im) (img_state im) (img_timeout im) (img_uri im) (img_wait im) tr =
               (tr @ [GetImage key], Inr (False, img_id im, Some (basename u), None, None))"
      using delete_absent_derived [OF assms(4)] by blast
    then show "image_core cloud host im tr =
            (tr @ [GetImage key],
             Inr [(''changed'', PBool False),
                  (''size'', PNone),
                  (''checksum'', if truthy (img_checksum im) then opt_str (img_checksum im)
                                 else PNone),
                  (''format'', PNone),
                  (''id'', opt_str (img_id im)),
                  (''name'', PStr (basename u)),
                  (''state'', PStr ''absent''),
                  (''timeout'', PInt (img_timeout im)),
                  (''uri'', opt_str (img_uri im)),
                  (''wait'', PBool (img_wait im))])"
      unfolding c using e assms(2)
      by (simp add: and_then_def succeed_def opt_int_def opt_str_def state_str_def)
  qed
qed

text \<open>
  On the small cloud with no image, format \<^verbatim>\<open>qcow2\<close> given: deleting by id, and deleting
  by the base name of a local path.
\<close>

theorem delete_absent_null_size_format_witness:
  "image_core (demo_cloud [] [] None) (demo_host None None)
     (demo_image_module\<lparr>img_checksum := None, img_format := Some ''qcow2'',
        img_id := Some ''1961709b'', img_state := Absent\<rparr>) [] =
     ([GetImage (Some ''1961709b'')],
      Inr [(''changed'', PBool False), (''size'', PNone), (''checksum'', PNone),
           (''format'', PNone), (''id'', PStr ''1961709b''), (''name'', PNone),
           (''state'', PStr ''absent''), (''timeout'', PInt 180),
           (''uri'', PStr ''https://cdimage.debian.org/cdimage/debian-10.qcow2''),
           (''wait'', PBool True)])
   \<and> image_core (demo_cloud [] [] None) (demo_host None None)
     (demo_image_module\<lparr>img_checksum := None, img_format := Some ''qcow2'',
        img_state := Absent, img_uri := Some ''/srv/images/debian-10.qcow2''\<rparr>) [] =
     ([GetImage (Some ''debian-10.qcow2'')],
      Inr [(''changed'', PBool False), (''size'', PNone), (''checksum'', PNone),
           (''format'', PNone), (''id'', PNone), (''name'', PStr ''debian-10.qcow2''),
           (''state'', PStr ''absent''), (''timeout'', PInt 180),
           (''uri'', PStr ''/srv/images/debian-10.qcow2''),
           (''wait'', PBool True)])"
proof -
  let ?a = "demo_image_module\<lparr>img_checksum := None, img_format := Some ''qcow2'',
        img_id := Some ''1961709b'', img_state := Absent\<rparr>"
  let ?b = "demo_image_module\<lparr>img_checksum := None, img_format := Some ''qcow2'',
        img_state := Absent, img_uri := Some ''/srv/images/debian-10.qcow2''\<rparr>"
  have a1: "\<not> img_check_mode ?a" and a2: "img_state ?a = Absent"
    and a3: "\<not> truthy (img_checksum ?a) \<or> (\<exists>c. img_checksum ?a = Some c \<and> CHR '':'' \<in> set c)"
    by (simp_all add: demo_image_module_def truthy_def)
  have b1: "\<not> img_check_mode ?b" and b2: "img_state ?b = Absent"
    and b3: "\<not> truthy (img_checksum ?b) \<or> (\<exists>c. img_checksum ?b = Some c \<and> CHR '':'' \<in> set c)"
    by (simp_all add: demo_image_module_def truthy_def)
  have g1: "cloud_get_image (demo_cloud [] [] None) [] (Some ''1961709b'') = Inr None"
    and g2: "cloud_get_image (demo_cloud [] [] None) [] (Some ''debian-10.qcow2'') = Inr None"
    by (simp_all add: demo_cloud_def)
  show ?thesis
    using delete_absent_null_size_format [OF a1 a2 a3 g1, of "demo_host None None" "[]"]
      delete_absent_null_size_format [OF b1 b2 b3 g2, of "demo_host None None"
        "''/srv/images/debian-10.qcow2''"]
    by (simp add: demo_image_module_def demo_host_def demo_urlsplit_def truthy_def opt_str_def
        basename_def)
qed

text \<open>
  C10. With a local locator, an id, no name (\<^verbatim>\<open>None\<close>), no format and no image found
  under the id, \<open>import'\<close> applies \<^verbatim>\<open>os.path.splitext\<close> to the missing name and ends
  with \<open>TypeError\<close> after the one lookup, not with the \<open>ValueError\<close> about the format.
\<close>

theorem import_id_without_name_type_error:
  assumes "host_urlsplit host uri = Inr (uri_scheme, uri_path)"
    and "uri_scheme = ''file'' \<or> uri_scheme = []"
    and "truthy id'" and "\<not> truthy format"
    and "cloud_get_image cloud tr id' = Inr None"
  shows "import' cloud host algorithm checksum format id' None st timeout uri wait tr =
           (tr @ [GetImage id'], Inl TypeError)"
  using assms
  by (auto simp: import'_def local_names_def Let_def and_then_succeed and_then_perform_Inr
      derive_format_def and_then_raise)

text \<open>On the small cloud: a local Debian image, imported under an id alone.\<close>

theorem import_id_without_name_type_error_witness:
  "import' (demo_cloud [] [] None) (demo_host None None) None None None (Some ''1961709b'') None
     Present 180 (Some ''/srv/images/debian-10.qcow2'') True []
   = ([GetImage (Some ''1961709b'')], Inl TypeError)"
proof -
  have u: "host_urlsplit (demo_host None None) (Some ''/srv/images/debian-10.qcow2'')
             = Inr ([], ''/srv/images/debian-10.qcow2'')"
    by (simp add: demo_host_def demo_urlsplit_def)
  have l: "[] = ''file'' \<or> [] = ([] :: string)" by simp
  have i: "truthy (Some ''1961709b'')" and f: "\<not> truthy None" by (simp_all add: truthy_def)
  have g: "cloud_get_image (demo_cloud [] [] None) [] (Some ''1961709b'') = Inr None"
    by (simp add: demo_cloud_def)
  show ?thesis
    using import_id_without_name_type_error [OF u l i f g, of None None Present 180 True]
    by simp
qed

section \<open>The checksum is verified before the upload\<close>

lemma split_colon_parts:
  assumes "CHR '':'' \<notin> set a"
  shows "split_colon (a @ '':'' @ v) = [a, v]"
proof -
  have all: "\<forall>x\<in>set a. x \<noteq> CHR '':''" using assms by auto
  then have d: "dropWhile (\<lambda>c. c \<noteq> CHR '':'') a = []" by simp
  have t: "takeWhile (\<lambda>c. c \<noteq> CHR '':'') (a @ CHR '':'' # v) = a"
    using all by (simp add: takeWhile_tail)
  have "dropWhile (\<lambda>c. c \<noteq> CHR '':'') (a @ CHR '':'' # v) = CHR '':'' # v"
    using all by (simp add: dropWhile_append)
  then show ?thesis using t by (simp add: split_colon_def)
qed

lemma import_from_disk_mismatch:
  assumes "host_path_exists host tr p" and "truthy checksum"
    and "host_digest_from_file host (tr @ [PathExists p]) p algorithm = Inr d"
    and "checksum \<noteq> d"
  shows "import_from_disk cloud host algorithm checksum format id' name st timeout (Some p) wait tr =
           (tr @ [PathExists p, DigestFromFile p algorithm],
            Inl (Exception (''Checksum mismatch '' @ str_of checksum @ '' != '' @ str_of d)))"
  using assms
  by (simp add: import_from_disk_def and_then_def perform_def raise_def)

lemma upload_trace:
  "\<exists>rest r.
     and_then (perform (CreateImage args) ans)
       (\<lambda>image.
          and_then
            (if image_size image \<noteq> Some n then perform (Log msg) (\<lambda>tr. Inr ()) else succeed ())
            (\<lambda>_. succeed (image_id image, image_size image))) T
     = (T @ [CreateImage args] @ rest, r)"
  by (cases "ans T") (auto simp: and_then_def perform_def succeed_def)

lemma import_from_disk_upload:
  assumes "host_path_exists host tr p"
    and "tr' = (if truthy checksum then tr @ [PathExists p, DigestFromFile p algorithm]
                else tr @ [PathExists p])"
    and "truthy checksum \<longrightarrow>
           host_digest_from_file host (tr @ [PathExists p]) p algorithm = Inr checksum"
    and "key = (if truthy id' then id' else name)"
    and "cloud_get_image cloud tr' key = Inr None"
    and "host_getsize host (tr' @ [GetImage key]) p = Inr n"
    and "args = \<lparr>ci_name = name, ci_filename = Some p, ci_disk_format = format,
                  ci_wait = wait, ci_timeout = timeout,
                  ci_kwargs = (if truthy id' then [(''id'', opt_str id')] else [])
                    @ (if algorithm \<in> set [Some ''md5'', Some ''sha256'']
                       then [(''validate_checksum'', PBool True),
                             (str_of algorithm, opt_str checksum)]
                       else [])\<rparr>"
  shows "\<exists>rest r.
           import_from_disk cloud host algorithm checksum format id' name st timeout (Some p) wait tr =
             (tr' @ [GetImage key, GetSize p, CreateImage args] @ rest, r)"
proof -
  let ?k = "\<lambda>image.
            and_then
              (if image_size image \<noteq> Some n
               then perform (Log ''[DEBUG] image size on disk differs from the uploaded size'')
                      (\<lambda>tr. Inr ())
               else succeed ())
              (\<lambda>_. succeed (image_id image, image_size image))"
  have verify: "and_then
       (if truthy checksum
        then and_then
               (perform (DigestFromFile p algorithm)
                  (\<lambda>tr. host_digest_from_file host tr p algorithm))
               (\<lambda>checksum_on_disk.
                  if checksum \<noteq> checksum_on_disk
                  then raise (Exception (''Checksum mismatch '' @ str_of checksum @ '' != ''
                                          @ str_of checksum_on_disk))
                  else succeed ())
        else succeed ()) f (tr @ [PathExists p]) = f () tr'" for f :: "unit \<Rightarrow> (string \<times> int option) action"
    using assms(2,3) by (simp add: and_then_def perform_def succeed_def)
  have "import_from_disk cloud host algorithm checksum format id' name st timeout (Some p) wait tr
        = and_then (perform (CreateImage args) (\<lambda>tr. cloud_create_image cloud tr args)) ?k
            (tr' @ [GetImage key, GetSize p])"
    unfolding import_from_disk_def option.case Let_def
    using assms(1,4,5,6,7)
    by (simp only: and_then_perform_Inr [of "\<lambda>tr. Inr (host_path_exists host tr p)", OF refl]
          verify if_True if_False not_True_eq_False simp_thms)
       (simp add: and_then_perform_Inr)
  then show ?thesis
    using upload_trace [of args "\<lambda>tr. cloud_create_image cloud tr args" n
            "''[DEBUG] image size on disk differs from the uploaded size''"
            "tr' @ [GetImage key, GetSize p]"]
    by simp
qed

text \<open>
  C5. \<open>import_from_disk\<close> on an existing path. When a checksum is given, the digest of the
  file under the given algorithm is taken right after the existence test and compared with
  it: if they differ, the function raises with the digest call as its last call, so no
  image lookup and no upload is made; if they agree, or when no checksum is given, it goes
  on to the image lookup and, the image being absent and the size read, to the
  \<open>create_image\<close> call. The algorithm and the value are the two parts of the checksum
  parameter around its first colon.
\<close>

theorem checksum_verified_before_upload:
  assumes "host_path_exists host tr p"
    and "key = (if truthy id' then id' else name)"
    and "args = \<lparr>ci_name = name, ci_filename = Some p, ci_disk_format = format,
                  ci_wait = wait, ci_timeout = timeout,
                  ci_kwargs = (if truthy id' then [(''id'', opt_str id')] else [])
                    @ (if algorithm \<in> set [Some ''md5'', Some ''sha256'']
                       then [(''validate_checksum'', PBool True),
                             (str_of algorithm, opt_str checksum)]
                       else [])\<rparr>"
  shows "(\<forall>d. truthy checksum
             \<and> host_digest_from_file host (tr @ [PathExists p]) p algorithm = Inr d
             \<and> checksum \<noteq> d \<longrightarrow>
            import_from_disk cloud host algorithm checksum format id' name st timeout (Some p)
              wait tr =
              (tr @ [PathExists p, DigestFromFile p algorithm],
               Inl (Exception (''Checksum mismatch '' @ str_of checksum @ '' != '' @ str_of d))))
       \<and> (\<forall>n. truthy checksum
             \<and> host_digest_from_file host (tr @ [PathExists p]) p algorithm = Inr checksum
             \<and> cloud_get_image cloud (tr @ [PathExists p, DigestFromFile p algorithm]) key
                 = Inr None
             \<and> host_getsize host (tr @ [PathExists p, DigestFromFile p algorithm, GetImage key]) p
                 = Inr n \<longrightarrow>
            (\<exists>rest r.
               import_from_disk cloud host algorithm checksum format id' name st timeout (Some p)
                 wait tr =
                 (tr @ [PathExists p, DigestFromFile p algorithm, GetImage key, GetSize p,
                        CreateImage args] @ rest, r)))
       \<and> (\<forall>n. \<not> truthy checksum
             \<and> cloud_get_image cloud (tr @ [PathExists p]) key = Inr None
             \<and> host_getsize host (tr @ [PathExists p, GetImage key]) p = Inr n \<longrightarrow>
            (\<exists>rest r.
               import_from_disk cloud host algorithm checksum format id' name st timeout (Some p)
                 wait tr =
                 (tr @ [PathExists p, GetImage key, GetSize p, CreateImage args] @ rest, r)))
       \<and> (\<forall>a v. CHR '':'' \<notin> set a \<longrightarrow> split_colon (a @ '':'' @ v) = [a, v])"
proof (intro conjI allI impI)
  fix d
  assume "truthy checksum
             \<and> host_digest_from_file host (tr @ [PathExists p]) p algorithm = Inr d
             \<and> checksum \<noteq> d"
  then show "import_from_disk cloud host algorithm checksum format id' name st timeout (Some p)
              wait tr =
              (tr @ [PathExists p, DigestFromFile p algorithm],
               Inl (Exception (''Checksum mismatch '' @ str_of checksum @ '' != '' @ str_of d)))"
    using import_from_disk_mismatch [OF assms(1)] by blast
next
  fix n
  assume a: "truthy checksum
             \<and> host_digest_from_file host (tr @ [PathExists p]) p algorithm = Inr checksum
             \<and> cloud_get_image cloud (tr @ [PathExists p, DigestFromFile p algorithm]) key
                 = Inr None
             \<and> host_getsize host (tr @ [PathExists p, DigestFromFile p algorithm, GetImage key]) p
                 = Inr n"
  show "\<exists>rest r.
               import_from_disk cloud host algorithm checksum format id' name st timeout (Some p)
                 wait tr =
                 (tr @ [PathExists p, DigestFromFile p algorithm, GetImage key, GetSize p,
                        CreateImage args] @ rest, r)"
    using import_from_disk_upload
            [where checksum = checksum and algorithm = algorithm and cloud = cloud and n = n
               and st = st, OF assms(1) refl _ assms(2) _ _ assms(3)] a
    by simp
next
  fix n
  assume a: "\<not> truthy checksum
             \<and> cloud_get_image cloud (tr @ [PathExists p]) key = Inr None
             \<and> host_getsize host (tr @ [PathExists p, GetImage key]) p = Inr n"
  show "\<exists>rest r.
               import_from_disk cloud host algorithm checksum format id' name st timeout (Some p)
                 wait tr =
                 (tr @ [PathExists p, GetImage key, GetSize p, CreateImage args] @ rest, r)"
    using import_from_disk_upload
            [where checksum = checksum and algorithm = algorithm and cloud = cloud and n = n
               and st = st, OF assms(1) refl _ assms(2) _ _ assms(3)] a
    by simp
next
  fix a v
  assume "CHR '':'' \<notin> set a"
  then show "split_colon (a @ '':'' @ v) = [a, v]" by (rule split_colon_parts)
qed

text \<open>
  On the small host, a local image with expected digest \<^verbatim>\<open>00f76f2f\<close> under
  \<^verbatim>\<open>sha256\<close>: a file with another digest is refused before any lookup or upload; a file
  with that digest, and a file imported without a checksum, are uploaded.
\<close>

theorem checksum_verified_before_upload_witness:
  "import_from_disk (demo_cloud [] [] None) (demo_host None (Some ''ffff'')) (Some ''sha256'')
      (Some ''00f76f2f'') (Some ''qcow2'') None (Some ''debian-10.qcow2'') Present 180
      (Some ''/srv/images/debian-10.qcow2'') True []
   = ([PathExists ''/srv/images/debian-10.qcow2'',
       DigestFromFile ''/srv/images/debian-10.qcow2'' (Some ''sha256'')],
      Inl (Exception ''Checksum mismatch 00f76f2f != ffff''))
   \<and> (\<exists>rest r.
        import_from_disk (demo_cloud [] [] None) (demo_host None (Some ''00f76f2f''))
          (Some ''sha256'') (Some ''00f76f2f'') (Some ''qcow2'') None (Some ''debian-10.qcow2'')
          Present 180 (Some ''/srv/images/debian-10.qcow2'') True []
        = ([PathExists ''/srv/images/debian-10.qcow2'',
            DigestFromFile ''/srv/images/debian-10.qcow2'' (Some ''sha256''),
            GetImage (Some ''debian-10.qcow2''), GetSize ''/srv/images/debian-10.qcow2'',
            CreateImage \<lparr>ci_name = Some ''debian-10.qcow2'',
              ci_filename = Some ''/srv/images/debian-10.qcow2'', ci_disk_format = Some ''qcow2'',
              ci_wait = True, ci_timeout = 180,
              ci_kwargs = [(''validate_checksum'', PBool True), (''sha256'', PStr ''00f76f2f'')]\<rparr>]
           @ rest, r))
   \<and> (\<exists>rest r.
        import_from_disk (demo_cloud [] [] None) (demo_host None (Some ''ffff''))
          None None (Some ''qcow2'') None (Some ''debian-10.qcow2'')
          Present 180 (Some ''/srv/images/debian-10.qcow2'') True []
        = ([PathExists ''/srv/images/debian-10.qcow2'',
            GetImage (Some ''debian-10.qcow2''), GetSize ''/srv/images/debian-10.qcow2'',
            CreateImage \<lparr>ci_name = Some ''debian-10.qcow2'',
              ci_filename = Some ''/srv/images/debian-10.qcow2'', ci_disk_format = Some ''qcow2'',
              ci_wait = True, ci_timeout = 180, ci_kwargs = []\<rparr>]
           @ rest, r))
   \<and> split_colon (''sha256'' @ '':'' @ ''00f76f2f'') = [''sha256'', ''00f76f2f'']"
proof -
  let ?p = "''/srv/images/debian-10.qcow2''"
  have e1: "host_path_exists (demo_host None (Some ''ffff'')) [] ?p"
    and e2: "host_path_exists (demo_host None (Some ''00f76f2f'')) [] ?p"
    by (simp_all add: demo_host_def)
  note w1 = checksum_verified_before_upload
      [where cloud = "demo_cloud [] [] None" and id' = None and name = "Some ''debian-10.qcow2''"
         and format = "Some ''qcow2''" and st = Present and timeout = 180 and wait = True,
       OF e1 refl refl]
  note w2 = checksum_verified_before_upload
      [where cloud = "demo_cloud [] [] None" and id' = None and name = "Some ''debian-10.qcow2''"
         and format = "Some ''qcow2''" and st = Present and timeout = 180 and wait = True,
       OF e2 refl refl]
  show ?thesis
    using w1 [where checksum = "Some ''00f76f2f''" and algorithm = "Some ''sha256''"]
          w2 [where checksum = "Some ''00f76f2f''" and algorithm = "Some ''sha256''"]
          w1 [where checksum = None and algorithm = None]
    by (simp add: demo_host_def demo_cloud_def truthy_def str_of_def opt_str_def split_colon_def)
qed

section \<open>Importing an image that exists already\<close>

text \<open>The local branch of \<open>import'\<close> once the names are settled.\<close>

lemma import_local_resolved:
  assumes "host_urlsplit host uri = Inr (uri_scheme, uri_path)"
    and "uri_scheme = ''file'' \<or> uri_scheme = []"
    and "local_names id' name uri tr = (tr, Inr (name', key))"
  shows "import' cloud host algorithm checksum format id' name st timeout uri wait tr =
     and_then (perform (GetImage key) (\<lambda>tr. cloud_get_image cloud tr key))
       (\<lambda>image.
          case image of
            Some im \<Rightarrow>
              succeed (False, Some (image_id im), image_name im, image_size im,
                       image_disk_format im)
          | None \<Rightarrow>
              and_then (derive_format format name') (\<lambda>format.
                if \<not> truthy format
                then raise (ValueError
                       ''no image format given and format could not be derived from uri'')
                else
                  and_then
                    (import_from_disk cloud host algorithm checksum format id' name' st timeout
                       uri wait)
                    (\<lambda>(id', size). succeed (True, Some id', name', size, format)))) tr"
  using assms by (auto simp: import'_def and_then_Inr)

text \<open>The remote branch of \<open>import'\<close> once the URL is open and a file name is found.\<close>

lemma import_remote_opened:
  assumes "host_urlsplit host uri = Inr (uri_scheme, uri_path)"
    and "uri_scheme \<noteq> ''file''" and "uri_scheme \<noteq> []"
    and "host_mkdtemp host tr = Inr dir"
    and "host_open_url host (tr @ [TemporaryDirectory]) uri = Inr r"
    and "remote_names r uri_path name = (Some fname, name')" and "fname \<noteq> []"
  shows "import' cloud host algorithm checksum format id' name st timeout uri wait tr =
     (case
        and_then
          (and_then (derive_format format name') (\<lambda>format.
              if \<not> truthy format
              then raise (ValueError ''no format given and format could not be derived from uri'')
              else
              let name_or_id = (if truthy id' then id' else name') in
              and_then (perform (GetImage name_or_id) (\<lambda>tr. cloud_get_image cloud tr name_or_id))
                (\<lambda>image.
              case image of
                Some im \<Rightarrow>
                  succeed (Inl (False, Some (image_id im), image_name im, image_size im,
                                image_disk_format im))
              | None \<Rightarrow>
                  (let local_image_path = path_join dir fname in
                   and_then
                     (perform (CopyFileObj local_image_path)
                        (\<lambda>tr. host_copyfileobj host tr local_image_path))
                     (\<lambda>_. succeed (Inr (format, name', local_image_path)))))))
           (\<lambda>x. case x of
                  Inl outcome \<Rightarrow> succeed outcome
                | Inr (format, name, local_image_path) \<Rightarrow>
                    and_then
                      (import_from_disk cloud host algorithm checksum format id' name st
                         timeout (Some local_image_path) wait)
                      (\<lambda>(id', size). succeed (True, Some id', name, size, format)))
          (tr @ [TemporaryDirectory, OpenUrl uri])
      of (tr', res) \<Rightarrow> (tr' @ [Cleanup dir], res))"
  using assms
  by (simp add: import'_def with_temporary_directory_def and_then_def perform_def)


lemma derive_format_given:
  "truthy format \<Longrightarrow> derive_format format name tr = (tr, Inr format)"
  by (simp add: derive_format_def succeed_def)

lemma derive_format_ext:
  "\<not> truthy format \<Longrightarrow>
   derive_format format (Some n) tr =
     (tr, Inr (Some (if length (snd (splitext n)) > 1 then tl (snd (splitext n))
                     else snd (splitext n))))"
  by (auto simp: derive_format_def succeed_def Let_def)

lemma truthy_stripped:
  "ext \<noteq> [] \<Longrightarrow> truthy (Some (if length ext > 1 then tl ext else ext))"
  by (cases ext) (auto simp: truthy_def)

lemma derive_format_truthy:
  assumes "truthy format \<or> (\<exists>n. name' = Some n \<and> snd (splitext n) \<noteq> [])"
  shows "\<exists>f. truthy f \<and> derive_format format name' tr = (tr, Inr f)"
proof (cases "truthy format")
  case True
  then show ?thesis using derive_format_given by blast
next
  case False
  then obtain n where n: "name' = Some n" "snd (splitext n) \<noteq> []" using assms by blast
  show ?thesis
    using derive_format_ext [OF False, of n tr] truthy_stripped [OF n(2)] n(1) by blast
qed

text \<open>
  The lookup key and the names, spelled out. Locally the key is the id if given, else the
  name if given, else the base name of the locator. Remotely the file name is the one in the
  \<^verbatim>\<open>Content-Disposition\<close> header, else the base name of the URL's path, else the given
  name, and the image name is the given name, else that file name.
\<close>

lemma local_names_key_order:
  "local_names id' name uri tr =
     (if truthy id' then (tr, Inr (name, id'))
      else if truthy name then (tr, Inr (name, name))
      else case uri of
             None \<Rightarrow> (tr, Inl TypeError)
           | Some u \<Rightarrow>
               if basename u = []
               then (tr, Inl (ValueError
                      ''no image name given and image name could not be derived from uri''))
               else (tr, Inr (Some (basename u), Some (basename u))))"
  by (simp add: local_names_def Let_def succeed_def raise_def split: option.splits)

lemma header_filename_nonempty: "header_filename h = Some f \<Longrightarrow> f \<noteq> []"
proof (induction h)
  case Nil
  then show ?case by simp
next
  case (Cons c cs)
  show ?case
  proof (cases "take 9 (c # cs) = ''filename='' \<and> drop 9 (c # cs) \<noteq> []
                  \<and> hd (drop 9 (c # cs)) \<noteq> CHR 0x0A")
    case True
    then have "f = takeWhile (\<lambda>d. d \<noteq> CHR 0x0A) (drop 9 (c # cs))"
      using Cons.prems by (simp add: Let_def)
    then show ?thesis using True by (cases "drop 9 (c # cs)") auto
  next
    case False
    then have "header_filename cs = Some f" using Cons.prems by (auto simp: Let_def)
    then show ?thesis by (rule Cons.IH)
  qed
qed

lemma remote_names_order:
  "remote_names r p name =
     (let hint = (case content_disposition r of None \<Rightarrow> None | Some h \<Rightarrow> header_filename h);
          filename = (case hint of
                        Some f \<Rightarrow> Some f
                      | None \<Rightarrow> if basename p \<noteq> [] then Some (basename p) else name)
      in (filename, if truthy name then name else filename))"
proof (cases "content_disposition r")
  case None
  then show ?thesis by (simp add: remote_names_def Let_def truthy_def)
next
  case (Some h)
  show ?thesis
  proof (cases "header_filename h")
    case None
    then show ?thesis using Some
      by (cases h) (simp_all add: remote_names_def Let_def truthy_def)
  next
    case (Some f)
    then have "f \<noteq> []" by (rule header_filename_nonempty)
    moreover from Some have "h \<noteq> []" by (cases h) simp_all
    ultimately show ?thesis using Some \<open>content_disposition r = Some h\<close>
      by (simp add: remote_names_def Let_def truthy_def)
  qed
qed

lemma remote_names_header_first:
  "remote_names \<lparr>content_disposition = Some ''attachment; filename=buster.raw''\<rparr>
     ''/cdimage/debian-10.qcow2'' None = (Some ''buster.raw'', Some ''buster.raw'')
   \<and> remote_names \<lparr>content_disposition = Some ''attachment; filename=buster.raw''\<rparr>
     ''/cdimage/debian-10.qcow2'' (Some ''debian'') = (Some ''buster.raw'', Some ''debian'')
   \<and> remote_names \<lparr>content_disposition = None\<rparr> ''/cdimage/debian-10.qcow2'' None
     = (Some ''debian-10.qcow2'', Some ''debian-10.qcow2'')
   \<and> remote_names \<lparr>content_disposition = None\<rparr> ''/cdimage/'' (Some ''debian'')
     = (Some ''debian'', Some ''debian'')"
  by (simp add: remote_names_def Let_def truthy_def basename_def)

text \<open>
  What \<open>import'\<close> does when the lookup finds an image. For a local locator the lookup is
  its only call and the outcome is unchanged with that image's id, name, size and format.
  For a remote locator the temporary directory is made and the URL is opened first; when a
  file name is found, and a format is given or the name has an extension, the outcome is
  unchanged with that image's attributes: the response is not copied to a file, no digest
  is taken and nothing is uploaded.
\<close>

lemma import_existing_image_unchanged:
  assumes "host_urlsplit host uri = Inr (uri_scheme, uri_path)"
  shows "((uri_scheme = ''file'' \<or> uri_scheme = [])
            \<and> local_names id' name uri tr = (tr, Inr (name', key))
            \<and> cloud_get_image cloud tr key = Inr (Some im) \<longrightarrow>
          import' cloud host algorithm checksum format id' name st timeout uri wait tr =
            (tr @ [GetImage key],
             Inr (False, Some (image_id im), image_name im, image_size im,
                  image_disk_format im)))
       \<and> (uri_scheme \<noteq> ''file'' \<and> uri_scheme \<noteq> []
            \<and> host_mkdtemp host tr = Inr dir
            \<and> host_open_url host (tr @ [TemporaryDirectory]) uri = Inr r
            \<and> remote_names r uri_path name = (Some fname, name') \<and> fname \<noteq> []
            \<and> (truthy format \<or> (\<exists>n. name' = Some n \<and> snd (splitext n) \<noteq> []))
            \<and> key = (if truthy id' then id' else name')
            \<and> cloud_get_image cloud (tr @ [TemporaryDirectory, OpenUrl uri]) key = Inr (Some im) \<longrightarrow>
          import' cloud host algorithm checksum format id' name st timeout uri wait tr =
            (tr @ [TemporaryDirectory, OpenUrl uri, GetImage key, Cleanup dir],
             Inr (False, Some (image_id im), image_name im, image_size im,
                  image_disk_format im)))"
proof (intro conjI impI)
  assume a: "(uri_scheme = ''file'' \<or> uri_scheme = [])
            \<and> local_names id' name uri tr = (tr, Inr (name', key))
            \<and> cloud_get_image cloud tr key = Inr (Some im)"
  show "import' cloud host algorithm checksum format id' name st timeout uri wait tr =
            (tr @ [GetImage key],
             Inr (False, Some (image_id im), image_name im, image_size im,
                  image_disk_format im))"
    using a import_local_resolved [OF assms, of id' name tr name' key]
    by (simp add: and_then_perform_Inr succeed_def)
next
  assume a: "uri_scheme \<noteq> ''file'' \<and> uri_scheme \<noteq> []
            \<and> host_mkdtemp host tr = Inr dir
            \<and> host_open_url host (tr @ [TemporaryDirectory]) uri = Inr r
            \<and> remote_names r uri_path name = (Some fname, name') \<and> fname \<noteq> []
            \<and> (truthy format \<or> (\<exists>n. name' = Some n \<and> snd (splitext n) \<noteq> []))
            \<and> key = (if truthy id' then id' else name')
            \<and> cloud_get_image cloud (tr @ [TemporaryDirectory, OpenUrl uri]) key = Inr (Some im)"
  then have rem: "uri_scheme \<noteq> ''file''" "uri_scheme \<noteq> []"
    and d: "host_mkdtemp host tr = Inr dir"
    and o: "host_open_url host (tr @ [TemporaryDirectory]) uri = Inr r"
    and n: "remote_names r uri_path name = (Some fname, name')" "fname \<noteq> []"
    and k: "key = (if truthy id' then id' else name')"
    and g: "cloud_get_image cloud (tr @ [TemporaryDirectory, OpenUrl uri]) key = Inr (Some im)"
    by blast+
  obtain f where f: "truthy f"
      "derive_format format name' (tr @ [TemporaryDirectory, OpenUrl uri])
         = (tr @ [TemporaryDirectory, OpenUrl uri], Inr f)"
    using derive_format_truthy [of format name'] a by blast
  show "import' cloud host algorithm checksum format id' name st timeout uri wait tr =
            (tr @ [TemporaryDirectory, OpenUrl uri, GetImage key, Cleanup dir],
             Inr (False, Some (image_id im), image_name im, image_size im,
                  image_disk_format im))"
    unfolding import_remote_opened [OF assms rem d o n]
    using f g k
    by (auto simp: and_then_def perform_def succeed_def Let_def)
qed


text \<open>
  On the small cloud, where an image named \<^verbatim>\<open>debian\<close> exists: importing the local file
  \<^verbatim>\<open>/srv/images/debian\<close>, and importing \<^verbatim>\<open>https://example.com/debian\<close> with format
  \<^verbatim>\<open>qcow2\<close> given.
\<close>

lemma import_existing_image_unchanged_run:
  "import' (demo_cloud [] [] (Some debian_image)) (demo_host None None) None None None None None
     Present 180 (Some ''/srv/images/debian'') True []
   = ([GetImage (Some ''debian'')],
      Inr (False, Some ''77c1a5e0'', Some ''debian'', Some 536392192, Some ''qcow2''))
   \<and> import' (demo_cloud [] [] (Some debian_image)) (demo_host None None) None None
       (Some ''qcow2'') None None Present 180 (Some ''https://example.com/debian'') True []
   = ([TemporaryDirectory, OpenUrl (Some ''https://example.com/debian''),
       GetImage (Some ''debian''), Cleanup ''/tmp/tmpk3x''],
      Inr (False, Some ''77c1a5e0'', Some ''debian'', Some 536392192, Some ''qcow2''))"
proof -
  have l: "host_urlsplit (demo_host None None) (Some ''/srv/images/debian'')
             = Inr ([], ''/srv/images/debian'')"
    and r: "host_urlsplit (demo_host None None) (Some ''https://example.com/debian'')
             = Inr (''https'', ''/debian'')"
    by (simp_all add: demo_host_def demo_urlsplit_def)
  have ln: "local_names None None (Some ''/srv/images/debian'') []
              = ([], Inr (Some ''debian'', Some ''debian''))"
    by (simp add: local_names_def truthy_def basename_def succeed_def Let_def)
  have rn: "remote_names \<lparr>content_disposition = None\<rparr> ''/debian'' None
              = (Some ''debian'', Some ''debian'')"
    by (simp add: remote_names_def truthy_def basename_def Let_def)
  have g: "cloud_get_image (demo_cloud [] [] (Some debian_image)) t (Some ''debian'')
             = Inr (Some debian_image)" for t
    by (simp add: demo_cloud_def)
  have d: "host_mkdtemp (demo_host None None) [] = Inr ''/tmp/tmpk3x''"
    and o: "host_open_url (demo_host None None) ([] @ [TemporaryDirectory])
              (Some ''https://example.com/debian'') = Inr \<lparr>content_disposition = None\<rparr>"
    by (simp_all add: demo_host_def)
  have f: "truthy (Some ''qcow2'')" by (simp add: truthy_def)
  show ?thesis
    using import_existing_image_unchanged
            [OF l, where tr = "[]" and id' = None and name = None and name' = "Some ''debian''"
               and key = "Some ''debian''" and im = debian_image
               and cloud = "demo_cloud [] [] (Some debian_image)"
               and algorithm = None and checksum = None and format = None and st = Present
               and timeout = 180 and wait = True]
          import_existing_image_unchanged
            [OF r, where tr = "[]" and id' = None and name = None and name' = "Some ''debian''"
               and key = "Some ''debian''" and im = debian_image
               and cloud = "demo_cloud [] [] (Some debian_image)"
               and dir = "''/tmp/tmpk3x''" and r = "\<lparr>content_disposition = None\<rparr>"
               and fname = "''debian''"
               and algorithm = None and checksum = None and format = "Some ''qcow2''"
               and st = Present and timeout = 180 and wait = True]
          ln rn g d o f
    by (simp add: debian_image_def truthy_def)
qed

text \<open>
  C1. An image found under the identity key should make the import return unchanged with
  that image's attributes. The local branch does so: it looks the image up before it turns
  to the format. The remote branch does not: it settles the format before the lookup, so on
  the small cloud, where an image named \<^verbatim>\<open>debian\<close> exists, importing
  \<^verbatim>\<open>https://example.com/debian\<close> with no format given opens the URL and raises
  \<open>ValueError\<close> without ever looking the image up, in \<open>import'\<close> and so in
  \<open>image_core\<close>, while importing the local file \<^verbatim>\<open>/srv/images/debian\<close> with the same
  parameters returns unchanged.
\<close>

theorem import_existing_image_format_error:
  "cloud_get_image (demo_cloud [] [] (Some debian_image))
      [TemporaryDirectory, OpenUrl (Some ''https://example.com/debian'')] (Some ''debian'')
     = Inr (Some debian_image)
   \<and> image_name debian_image = Some ''debian''
   \<and> import' (demo_cloud [] [] (Some debian_image)) (demo_host None None) None None None None
       None Present 180 (Some ''https://example.com/debian'') True []
     = ([TemporaryDirectory, OpenUrl (Some ''https://example.com/debian''),
         Cleanup ''/tmp/tmpk3x''],
        Inl (ValueError ''no format given and format could not be derived from uri''))
   \<and> image_core (demo_cloud [] [] (Some debian_image)) (demo_host None None)
       (demo_image_module\<lparr>img_checksum := None,
          img_uri := Some ''https://example.com/debian''\<rparr>) []
     = ([TemporaryDirectory, OpenUrl (Some ''https://example.com/debian''),
         Cleanup ''/tmp/tmpk3x''],
        Inl (ValueError ''no format given and format could not be derived from uri''))
   \<and> import' (demo_cloud [] [] (Some debian_image)) (demo_host None None) None None None None
       None Present 180 (Some ''/srv/images/debian'') True []
     = ([GetImage (Some ''debian'')],
        Inr (False, Some ''77c1a5e0'', Some ''debian'', Some 536392192, Some ''qcow2''))"
  by (simp add: run_defs)

section \<open>The format inferred from the name\<close>

lemma basename_after_slash:
  "CHR ''/'' \<notin> set b \<Longrightarrow> basename (d @ ''/'' @ b) = b"
proof -
  assume a: "CHR ''/'' \<notin> set b"
  then have "takeWhile (\<lambda>c. c \<noteq> CHR ''/'') (rev b @ CHR ''/'' # rev d) = rev b"
    by (auto simp: takeWhile_tail)
  then show ?thesis by (simp add: basename_def)
qed

lemma set_basename: "set (basename p) \<subseteq> set p"
  using set_takeWhileD [of _ "\<lambda>c. c \<noteq> CHR ''/''" "rev p"] by (auto simp: basename_def)

lemma splitext_no_dot: "CHR ''.'' \<notin> set m \<Longrightarrow> snd (splitext m) = []"
  using set_basename [of m] by (auto simp: splitext_def Let_def)

lemma derive_format_missing:
  "\<not> truthy format \<Longrightarrow> snd (splitext n) = [] \<Longrightarrow>
   derive_format format (Some n) tr = (tr, Inr (Some []))"
  by (simp add: derive_format_ext)

lemma derive_format_stripped:
  "\<not> truthy format \<Longrightarrow> length (snd (splitext n)) > 1 \<Longrightarrow>
   derive_format format (Some n) tr = (tr, Inr (Some (tl (snd (splitext n)))))"
  by (simp add: derive_format_ext)

lemma truthy_tl: "length ext > 1 \<Longrightarrow> truthy (Some (tl ext))"
  by (cases ext) (auto simp: truthy_def)

text \<open>
  \<open>splitext\<close> on some names, and in general: the extension starts at the last dot of the
  base name when a character other than a dot stands before it, and is empty when only
  dots do.
\<close>

lemma splitext_examples:
  "splitext ''debian-10.4.2.qcow2'' = (''debian-10.4.2'', ''.qcow2'')
   \<and> splitext ''.qcow2'' = (''.qcow2'', [])
   \<and> splitext ''a.d/image'' = (''a.d/image'', [])
   \<and> splitext ''..raw'' = (''..raw'', [])
   \<and> splitext ''image.'' = (''image'', ''.'')
   \<and> splitext ''image'' = (''image'', [])"
  by (simp add: splitext_def basename_def Let_def)

lemma basename_no_slash:
  assumes "CHR ''/'' \<notin> set b"
  shows "basename b = b"
proof -
  have "\<forall>c\<in>set (rev b). c \<noteq> CHR ''/''" using assms by auto
  then have "takeWhile (\<lambda>c. c \<noteq> CHR ''/'') (rev b) = rev b"
    by (simp only: takeWhile_eq_all_conv)
  then show ?thesis by (simp only: basename_def rev_rev_ident)
qed

lemma splitext_last_dot:
  assumes "CHR ''/'' \<notin> set stem" and "CHR ''/'' \<notin> set e" and "CHR ''.'' \<notin> set e"
    and "filter (\<lambda>c. c \<noteq> CHR ''.'') stem \<noteq> []"
  shows "splitext (stem @ ''.'' @ e) = (stem, ''.'' @ e)"
proof -
  let ?b = "stem @ ''.'' @ e"
  have b: "basename ?b = ?b" using assms(1,2) by (intro basename_no_slash) auto
  have "takeWhile (\<lambda>c. c \<noteq> CHR ''.'') (rev e @ CHR ''.'' # rev stem) = rev e"
    using assms(3) by (auto simp: takeWhile_tail)
  then have ext: "rev (takeWhile (\<lambda>c. c \<noteq> CHR ''.'') (rev ?b)) = e" by simp
  show ?thesis
    unfolding splitext_def b Let_def ext using assms(4) by simp
qed

lemma splitext_only_dots_before:
  assumes "CHR ''/'' \<notin> set e" and "CHR ''.'' \<notin> set e"
  shows "splitext (replicate k (CHR ''.'') @ ''.'' @ e) = (replicate k (CHR ''.'') @ ''.'' @ e, [])"
proof -
  let ?b = "replicate k (CHR ''.'') @ ''.'' @ e"
  have b: "basename ?b = ?b" using assms(1) by (intro basename_no_slash) auto
  have "takeWhile (\<lambda>c. c \<noteq> CHR ''.'') (rev e @ CHR ''.'' # replicate k (CHR ''.'')) = rev e"
    using assms(2) by (auto simp: takeWhile_tail)
  then have ext: "rev (takeWhile (\<lambda>c. c \<noteq> CHR ''.'') (rev ?b)) = e" by simp
  show ?thesis
    unfolding splitext_def b Let_def ext by simp
qed

text \<open>
  What \<open>import'\<close> does when no format is given. The format is taken from the extension
  that \<^verbatim>\<open>os.path.splitext\<close> finds in the resolved name \<open>n\<close>. When it finds none,
  \<open>import'\<close> raises \<open>ValueError\<close>: in the local branch after a lookup that found no
  image, in the remote branch once the URL is open and before any lookup. When the
  extension is longer than its dot, the dot is removed and the import goes on with what is
  left as the format. The base name of a locator ending in \<^verbatim>\<open>/debian-10.qcow2\<close> is
  \<^verbatim>\<open>debian-10.qcow2\<close>, whose extension gives \<^verbatim>\<open>qcow2\<close>; a name without a dot has no
  extension.
\<close>

lemma format_from_extension:
  assumes "host_urlsplit host uri = Inr (uri_scheme, uri_path)"
    and "\<not> truthy format" and "ext = snd (splitext n)"
  shows "((uri_scheme = ''file'' \<or> uri_scheme = [])
            \<and> local_names id' name uri tr = (tr, Inr (Some n, key))
            \<and> cloud_get_image cloud tr key = Inr None \<longrightarrow>
          (ext = [] \<longrightarrow>
             import' cloud host algorithm checksum format id' name st timeout uri wait tr =
               (tr @ [GetImage key],
                Inl (ValueError
                  ''no image format given and format could not be derived from uri'')))
        \<and> (length ext > 1 \<longrightarrow>
             import' cloud host algorithm checksum format id' name st timeout uri wait tr =
               and_then
                 (import_from_disk cloud host algorithm checksum (Some (tl ext)) id' (Some n) st
                    timeout uri wait)
                 (\<lambda>(id', size). succeed (True, Some id', Some n, size, Some (tl ext)))
                 (tr @ [GetImage key])))
       \<and> (uri_scheme \<noteq> ''file'' \<and> uri_scheme \<noteq> []
            \<and> host_mkdtemp host tr = Inr dir
            \<and> host_open_url host (tr @ [TemporaryDirectory]) uri = Inr r
            \<and> remote_names r uri_path name = (Some fname, Some n) \<and> fname \<noteq> [] \<longrightarrow>
          (ext = [] \<longrightarrow>
             import' cloud host algorithm checksum format id' name st timeout uri wait tr =
               (tr @ [TemporaryDirectory, OpenUrl uri, Cleanup dir],
                Inl (ValueError ''no format given and format could not be derived from uri'')))
        \<and> (length ext > 1
              \<and> key = (if truthy id' then id' else Some n)
              \<and> cloud_get_image cloud (tr @ [TemporaryDirectory, OpenUrl uri]) key = Inr None
              \<and> host_copyfileobj host (tr @ [TemporaryDirectory, OpenUrl uri, GetImage key])
                   (path_join dir fname) = Inr () \<longrightarrow>
             import' cloud host algorithm checksum format id' name st timeout uri wait tr =
               (case and_then
                       (import_from_disk cloud host algorithm checksum (Some (tl ext)) id'
                          (Some n) st timeout (Some (path_join dir fname)) wait)
                       (\<lambda>(id', size). succeed (True, Some id', Some n, size, Some (tl ext)))
                       (tr @ [TemporaryDirectory, OpenUrl uri, GetImage key,
                              CopyFileObj (path_join dir fname)])
                of (tr', res) \<Rightarrow> (tr' @ [Cleanup dir], res))))
       \<and> basename (d @ ''/'' @ ''debian-10.qcow2'') = ''debian-10.qcow2''
       \<and> tl (snd (splitext ''debian-10.qcow2'')) = ''qcow2''
       \<and> (CHR ''.'' \<notin> set m \<longrightarrow> snd (splitext m) = [])"
proof (intro conjI impI)
  assume a: "(uri_scheme = ''file'' \<or> uri_scheme = [])
            \<and> local_names id' name uri tr = (tr, Inr (Some n, key))
            \<and> cloud_get_image cloud tr key = Inr None"
  then have l: "uri_scheme = ''file'' \<or> uri_scheme = []"
    and ln: "local_names id' name uri tr = (tr, Inr (Some n, key))"
    and g: "cloud_get_image cloud tr key = Inr None"
    by blast+
  note shape = import_local_resolved [OF assms(1) l ln]
  {
    assume "ext = []"
    then show "import' cloud host algorithm checksum format id' name st timeout uri wait tr =
               (tr @ [GetImage key],
                Inl (ValueError
                  ''no image format given and format could not be derived from uri''))"
      unfolding shape
      using g derive_format_missing [OF assms(2), of n "tr @ [GetImage key]"] assms(3)
      by (simp add: and_then_def perform_def raise_def truthy_def)
  }
  {
    assume e: "length ext > 1"
    show "import' cloud host algorithm checksum format id' name st timeout uri wait tr =
               and_then
                 (import_from_disk cloud host algorithm checksum (Some (tl ext)) id' (Some n) st
                    timeout uri wait)
                 (\<lambda>(id', size). succeed (True, Some id', Some n, size, Some (tl ext)))
                 (tr @ [GetImage key])"
      unfolding shape
      using g derive_format_stripped [OF assms(2), of n "tr @ [GetImage key]"] assms(3) e
        truthy_tl [OF e]
      by (simp add: and_then_def perform_def)
  }
next
  assume a: "uri_scheme \<noteq> ''file'' \<and> uri_scheme \<noteq> []
            \<and> host_mkdtemp host tr = Inr dir
            \<and> host_open_url host (tr @ [TemporaryDirectory]) uri = Inr r
            \<and> remote_names r uri_path name = (Some fname, Some n) \<and> fname \<noteq> []"
  then have rem: "uri_scheme \<noteq> ''file''" "uri_scheme \<noteq> []"
    and dd: "host_mkdtemp host tr = Inr dir"
    and o: "host_open_url host (tr @ [TemporaryDirectory]) uri = Inr r"
    and rn: "remote_names r uri_path name = (Some fname, Some n)" "fname \<noteq> []"
    by blast+
  note shape = import_remote_opened [OF assms(1) rem dd o rn]
  {
    assume "ext = []"
    then show "import' cloud host algorithm checksum format id' name st timeout uri wait tr =
               (tr @ [TemporaryDirectory, OpenUrl uri, Cleanup dir],
                Inl (ValueError ''no format given and format could not be derived from uri''))"
      unfolding shape
      using derive_format_missing [OF assms(2), of n "tr @ [TemporaryDirectory, OpenUrl uri]"]
        assms(3)
      by (simp add: and_then_def raise_def truthy_def)
  }
  {
    assume b: "length ext > 1
              \<and> key = (if truthy id' then id' else Some n)
              \<and> cloud_get_image cloud (tr @ [TemporaryDirectory, OpenUrl uri]) key = Inr None
              \<and> host_copyfileobj host (tr @ [TemporaryDirectory, OpenUrl uri, GetImage key])
                   (path_join dir fname) = Inr ()"
    then have e: "length ext > 1" by blast
    show "import' cloud host algorithm checksum format id' name st timeout uri wait tr =
               (case and_then
                       (import_from_disk cloud host algorithm checksum (Some (tl ext)) id'
                          (Some n) st timeout (Some (path_join dir fname)) wait)
                       (\<lambda>(id', size). succeed (True, Some id', Some n, size, Some (tl ext)))
                       (tr @ [TemporaryDirectory, OpenUrl uri, GetImage key,
                              CopyFileObj (path_join dir fname)])
                of (tr', res) \<Rightarrow> (tr' @ [Cleanup dir], res))"
      unfolding shape
      using b derive_format_stripped [OF assms(2), of n "tr @ [TemporaryDirectory, OpenUrl uri]"]
        assms(3) truthy_tl [OF e]
      by (auto simp: and_then_def perform_def succeed_def Let_def)
  }
next
  show "basename (d @ ''/'' @ ''debian-10.qcow2'') = ''debian-10.qcow2''"
    by (rule basename_after_slash) simp
  show "tl (snd (splitext ''debian-10.qcow2'')) = ''qcow2''"
    by (simp add: splitext_def basename_def Let_def)
  assume "CHR ''.'' \<notin> set m"
  then show "snd (splitext m) = []" by (rule splitext_no_dot)
qed


text \<open>
  On the small cloud with no image and no format given. The local file
  \<^verbatim>\<open>/srv/images/debian\<close> and the URL \<^verbatim>\<open>https://example.com/debian\<close> have no extension
  and are refused; \<^verbatim>\<open>/srv/images/debian-10.qcow2\<close> and the Debian URL ending in
  \<^verbatim>\<open>debian-10.qcow2\<close> are uploaded with format \<^verbatim>\<open>qcow2\<close>.
\<close>

lemma format_from_extension_run:
  "import' (demo_cloud [] [] None) (demo_host None None) None None None None None Present 180
     (Some ''/srv/images/debian'') True []
   = ([GetImage (Some ''debian'')],
      Inl (ValueError ''no image format given and format could not be derived from uri''))
   \<and> snd (import' (demo_cloud [] [] None) (demo_host None None) None None None None None Present
            180 (Some ''/srv/images/debian-10.qcow2'') True [])
   = Inr (True, Some ''1961709b'', Some ''debian-10.qcow2'', Some 536392192, Some ''qcow2'')
   \<and> import' (demo_cloud [] [] None) (demo_host None None) None None None None None Present 180
     (Some ''https://example.com/debian'') True []
   = ([TemporaryDirectory, OpenUrl (Some ''https://example.com/debian''), Cleanup ''/tmp/tmpk3x''],
      Inl (ValueError ''no format given and format could not be derived from uri''))
   \<and> snd (import' (demo_cloud [] [] None) (demo_host None None) None None None None None Present
            180 (Some ''https://cdimage.debian.org/cdimage/debian-10.qcow2'') True [])
   = Inr (True, Some ''1961709b'', Some ''debian-10.qcow2'', Some 536392192, Some ''qcow2'')
   \<and> snd (splitext ''debian'') = []"
proof -
  let ?c = "demo_cloud [] [] None" and ?h = "demo_host None None"
  have nf: "\<not> truthy None" by (simp add: truthy_def)
  have u1: "host_urlsplit ?h (Some ''/srv/images/debian'') = Inr ([], ''/srv/images/debian'')"
    and u2: "host_urlsplit ?h (Some ''/srv/images/debian-10.qcow2'')
               = Inr ([], ''/srv/images/debian-10.qcow2'')"
    and u3: "host_urlsplit ?h (Some ''https://example.com/debian'') = Inr (''https'', ''/debian'')"
    and u4: "host_urlsplit ?h (Some ''https://cdimage.debian.org/cdimage/debian-10.qcow2'')
               = Inr (''https'', ''/cdimage/debian-10.qcow2'')"
    by (simp_all add: demo_host_def demo_urlsplit_def)
  have e1: "[] = snd (splitext ''debian'')"
    and e2: "''.qcow2'' = snd (splitext ''debian-10.qcow2'')"
    by (simp_all add: splitext_def basename_def Let_def)
  have l1: "local_names None None (Some ''/srv/images/debian'') []
              = ([], Inr (Some ''debian'', Some ''debian''))"
    and l2: "local_names None None (Some ''/srv/images/debian-10.qcow2'') []
              = ([], Inr (Some ''debian-10.qcow2'', Some ''debian-10.qcow2''))"
    by (simp_all add: local_names_def truthy_def basename_def succeed_def Let_def)
  have r3: "remote_names \<lparr>content_disposition = None\<rparr> ''/debian'' None
              = (Some ''debian'', Some ''debian'')"
    and r4: "remote_names \<lparr>content_disposition = None\<rparr> ''/cdimage/debian-10.qcow2'' None
              = (Some ''debian-10.qcow2'', Some ''debian-10.qcow2'')"
    by (simp_all add: remote_names_def truthy_def basename_def Let_def)
  have g: "cloud_get_image ?c t k = Inr None" for t k
    by (simp add: demo_cloud_def)
  have d: "host_mkdtemp ?h [] = Inr ''/tmp/tmpk3x''"
    and o: "host_open_url ?h ([] @ [TemporaryDirectory]) v = Inr \<lparr>content_disposition = None\<rparr>"
    and cp: "host_copyfileobj ?h t q = Inr ()" for v t q
    by (simp_all add: demo_host_def)
  note w1 = format_from_extension [OF u1 nf e1, where tr = "[]" and id' = None and name = None
      and key = "Some ''debian''" and cloud = ?c and algorithm = None and checksum = None
      and st = Present and timeout = 180 and wait = True and m = "''debian''"]
  note w2 = format_from_extension [OF u2 nf e2, where tr = "[]" and id' = None and name = None
      and key = "Some ''debian-10.qcow2''" and cloud = ?c and algorithm = None
      and checksum = None and st = Present and timeout = 180 and wait = True]
  note w3 = format_from_extension [OF u3 nf e1, where tr = "[]" and id' = None and name = None
      and cloud = ?c and algorithm = None and checksum = None and st = Present and timeout = 180
      and wait = True and dir = "''/tmp/tmpk3x''" and r = "\<lparr>content_disposition = None\<rparr>"
      and fname = "''debian''"]
  note w4 = format_from_extension [OF u4 nf e2, where tr = "[]" and id' = None and name = None
      and key = "Some ''debian-10.qcow2''" and cloud = ?c and algorithm = None
      and checksum = None and st = Present and timeout = 180 and wait = True
      and dir = "''/tmp/tmpk3x''" and r = "\<lparr>content_disposition = None\<rparr>"
      and fname = "''debian-10.qcow2''"]
  show ?thesis
    using w1 w2 w3 w4 l1 l2 r3 r4 g d o cp
    by (simp add: import_from_disk_def and_then_def perform_def succeed_def raise_def
        demo_cloud_def demo_host_def truthy_def path_join_def Let_def opt_str_def str_of_def)
qed

text \<open>
  C6. A name whose extension is empty once the dot is gone should be refused. The code
  refuses a name without any dot (\<^verbatim>\<open>/srv/images/image\<close>), but for a name ending in a
  dot the extension is the lone dot, the statement that removes the leading dot skips it
  because it asks for more than one character, and the dot then passes the test for a
  missing format: nothing follows the last dot of \<^verbatim>\<open>image.\<close>, yet importing
  \<^verbatim>\<open>/srv/images/image.\<close> or \<^verbatim>\<open>https://example.com/image.\<close> with no format given
  raises nothing and uploads the image with the format \<^verbatim>\<open>.\<close>.
\<close>

theorem format_trailing_dot_uploaded:
  "after_last_dot ''image.'' = []
   \<and> splitext ''image.'' = (''image'', ''.'')
   \<and> import' (demo_cloud [] [] None) (demo_host None None) None None None None None Present 180
       (Some ''/srv/images/image.'') True []
     = ([GetImage (Some ''image.''), PathExists ''/srv/images/image.'',
         GetImage (Some ''image.''), GetSize ''/srv/images/image.'',
         CreateImage \<lparr>ci_name = Some ''image.'', ci_filename = Some ''/srv/images/image.'',
           ci_disk_format = Some ''.'', ci_wait = True, ci_timeout = 180, ci_kwargs = []\<rparr>],
        Inr (True, Some ''1961709b'', Some ''image.'', Some 536392192, Some ''.''))
   \<and> snd (import' (demo_cloud [] [] None) (demo_host None None) None None None None None Present
            180 (Some ''https://example.com/image.'') True [])
     = Inr (True, Some ''1961709b'', Some ''image.'', Some 536392192, Some ''.'')
   \<and> snd (image_core (demo_cloud [] [] None) (demo_host None None)
            (demo_image_module\<lparr>img_checksum := None,
               img_uri := Some ''/srv/images/image.''\<rparr>) [])
     = Inr [(''changed'', PBool True), (''size'', PInt 536392192), (''checksum'', PNone),
            (''format'', PStr ''.''), (''id'', PStr ''1961709b''), (''name'', PStr ''image.''),
            (''state'', PStr ''present''), (''timeout'', PInt 180),
            (''uri'', PStr ''/srv/images/image.''), (''wait'', PBool True)]
   \<and> import' (demo_cloud [] [] None) (demo_host None None) None None None None None Present 180
       (Some ''/srv/images/image'') True []
     = ([GetImage (Some ''image'')],
        Inl (ValueError ''no image format given and format could not be derived from uri''))"
  by (simp add: run_defs after_last_dot_def)

end
